theory Spec2Isabelle
  imports Main "HOL-Library.Word"
begin

section \<open>Python values shared by the modules\<close>

text \<open>
  A Python \<open>str\<close> is a sequence of Unicode code points and \<open>len\<close> counts code points,
  so a \<open>str\<close> is a list of code points (naturals below \<open>0x110000\<close>). A \<open>bytes\<close> value
  is a list of 8-bit words. \<open>py\<close> turns an Isabelle string literal into the \<open>str\<close>
  with the same (Latin-1) code points; it is only used to write literals.
\<close>

type_synonym pystr = "nat list"
type_synonym bytes = "8 word list"

definition py :: "string \<Rightarrow> pystr" where
  "py s = map of_char s"

text \<open>
  Exceptions are values: the class of the exception, the message it was raised with
  (its argument) and its \<open>__context__\<close>, the exception that was being handled when it
  was raised, if any. \<open>Exn k t\<close> is an exception raised outside every handler. The text
  \<open>str(e)\<close> of an exception is not a field: it depends on the class (for a \<open>KeyError\<close> it is
  the \<open>repr\<close> of the argument, and a class of the client package may define its own), so
  the one method that formats it takes \<open>str\<close> as a parameter. The first six classes are
  the Python built-ins raised by the code below; the others are the failure kinds of the
  vault client (package \<open>avp\<close>), named as in the specification. All of them are
  subclasses of \<open>Exception\<close>.
\<close>

datatype exn_kind =
    ValueError | KeyError | PermissionError | NotImplementedError
  | UnicodeEncodeError | UnicodeDecodeError
  | ConnectionError | AuthenticationError | SessionExpiredError | NotFoundError
  | CapacityError | IntegrityError | DeviceWipedError | UnsupportedFormatError

datatype exn = Raised (kind: exn_kind) (message: pystr) (exn_context: "exn option")

abbreviation Exn :: "exn_kind \<Rightarrow> pystr \<Rightarrow> exn" where
  "Exn k t \<equiv> Raised k t None"

text \<open>
  \<open>str.encode()\<close> and \<open>bytes.decode()\<close> with their default codec, strict UTF-8.
  Encoding raises \<open>UnicodeEncodeError\<close> on a surrogate code point; decoding raises
  \<open>UnicodeDecodeError\<close> on a stray or missing continuation byte, an overlong form, an
  encoded surrogate and a value above \<open>0x10FFFF\<close>. The text of the two built-in
  exceptions is abbreviated.
\<close>

definition encode_cp :: "nat \<Rightarrow> bytes option" where
  "encode_cp c =
     (if c < 0x80 then Some [of_nat c]
      else if c < 0x800 then Some [of_nat (0xC0 + c div 64), of_nat (0x80 + c mod 64)]
      else if c < 0x10000 then
        (if 0xD800 \<le> c \<and> c \<le> 0xDFFF then None
         else Some [of_nat (0xE0 + c div 4096), of_nat (0x80 + c div 64 mod 64),
                    of_nat (0x80 + c mod 64)])
      else if c < 0x110000 then
        Some [of_nat (0xF0 + c div 262144), of_nat (0x80 + c div 4096 mod 64),
              of_nat (0x80 + c div 64 mod 64), of_nat (0x80 + c mod 64)]
      else None)"

fun str_encode :: "pystr \<Rightarrow> exn + bytes" where
  "str_encode [] = Inr []"
| "str_encode (c # cs) =
     (case encode_cp c of
        None \<Rightarrow> Inl (Exn UnicodeEncodeError (py ''utf-8 codec cannot encode character''))
      | Some bs \<Rightarrow> (case str_encode cs of Inl e \<Rightarrow> Inl e | Inr r \<Rightarrow> Inr (bs @ r)))"

definition is_cont :: "8 word \<Rightarrow> bool" where
  "is_cont b = (0x80 \<le> unat b \<and> unat b < 0xC0)"

definition cont_bits :: "8 word \<Rightarrow> nat" where
  "cont_bits b = unat b - 0x80"

definition decode_error :: exn where
  "decode_error = Exn UnicodeDecodeError (py ''utf-8 codec cannot decode byte'')"

definition dcons :: "nat \<Rightarrow> exn + pystr \<Rightarrow> exn + pystr" where
  "dcons c r = (case r of Inl e \<Rightarrow> Inl e | Inr cs \<Rightarrow> Inr (c # cs))"

fun bytes_decode :: "bytes \<Rightarrow> exn + pystr" where
  "bytes_decode [] = Inr []"
| "bytes_decode (b0 # bs) =
     (let n0 = unat b0 in
      if n0 < 0x80 then dcons n0 (bytes_decode bs)
      else if 0xC2 \<le> n0 \<and> n0 < 0xE0 then
        (case bs of
           b1 # r \<Rightarrow>
             if is_cont b1 then dcons ((n0 - 0xC0) * 64 + cont_bits b1) (bytes_decode r)
             else Inl decode_error
         | _ \<Rightarrow> Inl decode_error)
      else if 0xE0 \<le> n0 \<and> n0 < 0xF0 then
        (case bs of
           b1 # b2 # r \<Rightarrow>
             (let c = (n0 - 0xE0) * 4096 + cont_bits b1 * 64 + cont_bits b2 in
              if is_cont b1 \<and> is_cont b2 \<and> 0x800 \<le> c \<and> \<not> (0xD800 \<le> c \<and> c \<le> 0xDFFF)
              then dcons c (bytes_decode r) else Inl decode_error)
         | _ \<Rightarrow> Inl decode_error)
      else if 0xF0 \<le> n0 \<and> n0 < 0xF5 then
        (case bs of
           b1 # b2 # b3 # r \<Rightarrow>
             (let c = (n0 - 0xF0) * 262144 + cont_bits b1 * 4096 + cont_bits b2 * 64
                      + cont_bits b3 in
              if is_cont b1 \<and> is_cont b2 \<and> is_cont b3 \<and> 0x10000 \<le> c \<and> c < 0x110000
              then dcons c (bytes_decode r) else Inl decode_error)
         | _ \<Rightarrow> Inl decode_error)
      else Inl decode_error)"

section \<open>\<open>demos/04-hardware-security/avp_hardware.py\<close>\<close>

subsection \<open>\<open>NexusClawSimulator\<close>\<close>

text \<open>
  The fields of the class, with the leading underscore dropped. \<open>slots\<close> is a Python
  \<open>dict\<close>: an association list in insertion order, whose length is \<open>len\<close> as long
  as the keys are distinct (which every method preserves). The counters are Python
  integers. A method returns its result, or the exception it raises, together with the
  state it leaves. The \<open>print\<close> and \<open>time.sleep\<close> calls (the simulated search and touch
  confirmation) change no field and are left out. Methods of the simulator whose names
  the wrapper class uses too carry the prefix \<open>sim_\<close>.
\<close>

record NexusClawSimulator =
  connected :: bool
  pin_set :: bool
  pin :: "pystr option"
  slots :: "(pystr \<times> bytes) list"
  max_slots :: int
  failed_attempts :: int
  max_attempts :: int

definition NexusClawSimulator_init :: NexusClawSimulator where
  "NexusClawSimulator_init =
     \<lparr>connected = False, pin_set = False, pin = None, slots = [],
      max_slots = 32, failed_attempts = 0, max_attempts = 3\<rparr>"

text \<open>\<open>d[k] = v\<close> on a dict: replace in place when the key is there, append otherwise.\<close>

fun dict_set :: "'k \<Rightarrow> 'v \<Rightarrow> ('k \<times> 'v) list \<Rightarrow> ('k \<times> 'v) list" where
  "dict_set k v [] = [(k, v)]"
| "dict_set k v (p # ps) = (if fst p = k then (k, v) # ps else p # dict_set k v ps)"

text \<open>\<open>del d[k]\<close> for a key that is in the dict.\<close>

definition dict_del :: "'k \<Rightarrow> ('k \<times> 'v) list \<Rightarrow> ('k \<times> 'v) list" where
  "dict_del k ps = filter (\<lambda>p. fst p \<noteq> k) ps"

definition sim_connect :: "NexusClawSimulator \<Rightarrow> bool \<times> NexusClawSimulator" where
  "sim_connect d = (True, d\<lparr>connected := True\<rparr>)"

definition setup_pin :: "NexusClawSimulator \<Rightarrow> pystr \<Rightarrow> (exn + bool) \<times> NexusClawSimulator" where
  "setup_pin d p =
     (if int (length p) < 4
      then (Inl (Exn ValueError (py ''PIN must be at least 4 digits'')), d)
      else (Inr True, d\<lparr>pin := Some p, pin_set := True\<rparr>))"

definition verify_pin :: "NexusClawSimulator \<Rightarrow> pystr \<Rightarrow> bool \<times> NexusClawSimulator" where
  "verify_pin d p =
     (if Some p = pin d then (True, d\<lparr>failed_attempts := 0\<rparr>)
      else
        (let d1 = d\<lparr>failed_attempts := failed_attempts d + 1\<rparr>
         in if failed_attempts d1 \<ge> max_attempts d1
            then (False, d1\<lparr>slots := []\<rparr>)
            else (False, d1)))"

definition sim_store ::
  "NexusClawSimulator \<Rightarrow> pystr \<Rightarrow> bytes \<Rightarrow> (exn + bool) \<times> NexusClawSimulator" where
  "sim_store d slot_name v =
     (if int (length (slots d)) \<ge> max_slots d
      then (Inl (Exn ValueError (py ''No free slots available'')), d)
      else (Inr True, d\<lparr>slots := dict_set slot_name v (slots d)\<rparr>))"

definition sim_retrieve ::
  "NexusClawSimulator \<Rightarrow> pystr \<Rightarrow> (exn + bytes) \<times> NexusClawSimulator" where
  "sim_retrieve d slot_name =
     (case map_of (slots d) slot_name of
        None \<Rightarrow> (Inl (Exn KeyError (py ''Slot '' @ [39] @ slot_name @ [39] @ py '' not found'')), d)
      | Some v \<Rightarrow> (Inr v, d))"

definition sim_delete :: "NexusClawSimulator \<Rightarrow> pystr \<Rightarrow> bool \<times> NexusClawSimulator" where
  "sim_delete d slot_name =
     (if slot_name \<in> fst ` set (slots d)
      then (True, d\<lparr>slots := dict_del slot_name (slots d)\<rparr>)
      else (False, d))"

definition list_slots :: "NexusClawSimulator \<Rightarrow> pystr list" where
  "list_slots d = map fst (slots d)"

definition sim_disconnect :: "NexusClawSimulator \<Rightarrow> NexusClawSimulator" where
  "sim_disconnect d = d\<lparr>connected := False\<rparr>"

subsection \<open>\<open>HardwareInfo\<close> and \<open>get_info\<close>\<close>

record HardwareInfo =
  device_id :: pystr
  firmware_version :: pystr
  secure_element :: pystr
  slots_used :: int
  slots_total :: int
  tamper_detected :: bool

definition sim_get_info :: "NexusClawSimulator \<Rightarrow> HardwareInfo" where
  "sim_get_info d =
     \<lparr>device_id = py ''NXCLAW-SIM-0001'', firmware_version = py ''1.0.0-sim'',
      secure_element = py ''TROPIC01-SIM'', slots_used = int (length (slots d)),
      slots_total = max_slots d, tamper_detected = False\<rparr>"

subsection \<open>\<open>NexusClaw\<close>\<close>

text \<open>
  The wrapper owns its simulator (\<open>_device\<close>), so the device state is a field of the
  wrapper's state. A method that raises leaves the state as it was at the raise.
  \<open>setup\<close> and \<open>list\<close> are named \<open>claw_setup\<close> and \<open>list_names\<close> here.
\<close>

record NexusClaw =
  simulation :: bool
  device :: NexusClawSimulator
  authenticated :: bool

text \<open>
  \<open>__init__\<close>; \<open>has_hardware\<close> is the module constant \<open>HAS_HARDWARE\<close>, decided by
  whether \<open>avp.backends.HardwareBackend\<close> can be imported.
\<close>

definition NexusClaw_init :: "bool \<Rightarrow> bool \<Rightarrow> exn + NexusClaw" where
  "NexusClaw_init has_hardware simulation_arg =
     (if simulation_arg \<or> \<not> has_hardware
      then Inr \<lparr>simulation = True, device = NexusClawSimulator_init, authenticated = False\<rparr>
      else Inl (Exn NotImplementedError (py ''Real hardware support coming soon'')))"

definition connect :: "NexusClaw \<Rightarrow> bool \<times> NexusClaw" where
  "connect c = (case sim_connect (device c) of (r, d') \<Rightarrow> (r, c\<lparr>device := d'\<rparr>))"

definition get_info :: "NexusClaw \<Rightarrow> HardwareInfo" where
  "get_info c = sim_get_info (device c)"

definition claw_setup :: "NexusClaw \<Rightarrow> pystr \<Rightarrow> (exn + bool) \<times> NexusClaw" where
  "claw_setup c p = (case setup_pin (device c) p of (r, d') \<Rightarrow> (r, c\<lparr>device := d'\<rparr>))"

definition authenticate :: "NexusClaw \<Rightarrow> pystr \<Rightarrow> bool \<times> NexusClaw" where
  "authenticate c p =
     (case verify_pin (device c) p of
        (ok, d') \<Rightarrow>
          if ok then (True, c\<lparr>device := d', authenticated := True\<rparr>)
          else (False, c\<lparr>device := d'\<rparr>))"

definition not_authenticated :: exn where
  "not_authenticated = Exn PermissionError (py ''Must authenticate with PIN first'')"

definition store :: "NexusClaw \<Rightarrow> pystr \<Rightarrow> pystr \<Rightarrow> (exn + bool) \<times> NexusClaw" where
  "store c name v =
     (if \<not> authenticated c then (Inl not_authenticated, c)
      else
        (case str_encode v of
           Inl e \<Rightarrow> (Inl e, c)
         | Inr b \<Rightarrow> (case sim_store (device c) name b of (r, d') \<Rightarrow> (r, c\<lparr>device := d'\<rparr>))))"

definition retrieve :: "NexusClaw \<Rightarrow> pystr \<Rightarrow> (exn + pystr) \<times> NexusClaw" where
  "retrieve c name =
     (if \<not> authenticated c then (Inl not_authenticated, c)
      else
        (case sim_retrieve (device c) name of
           (Inl e, d') \<Rightarrow> (Inl e, c\<lparr>device := d'\<rparr>)
         | (Inr b, d') \<Rightarrow> (bytes_decode b, c\<lparr>device := d'\<rparr>)))"

definition delete :: "NexusClaw \<Rightarrow> pystr \<Rightarrow> (exn + bool) \<times> NexusClaw" where
  "delete c name =
     (if \<not> authenticated c then (Inl not_authenticated, c)
      else (case sim_delete (device c) name of (r, d') \<Rightarrow> (Inr r, c\<lparr>device := d'\<rparr>)))"

definition list_names :: "NexusClaw \<Rightarrow> exn + pystr list" where
  "list_names c =
     (if \<not> authenticated c then Inl not_authenticated else Inr (list_slots (device c)))"

definition disconnect :: "NexusClaw \<Rightarrow> NexusClaw" where
  "disconnect c = c\<lparr>device := sim_disconnect (device c), authenticated := False\<rparr>"

text \<open>
  A sequence of \<open>verify_pin\<close> calls on the simulator, one per PIN of the list, and of
  \<open>authenticate\<close> calls on the wrapper; the results of the calls are dropped.
\<close>

fun verify_pins :: "NexusClawSimulator \<Rightarrow> pystr list \<Rightarrow> NexusClawSimulator" where
  "verify_pins d [] = d"
| "verify_pins d (p # ps) = verify_pins (snd (verify_pin d p)) ps"

fun authenticates :: "NexusClaw \<Rightarrow> pystr list \<Rightarrow> NexusClaw" where
  "authenticates c [] = c"
| "authenticates c (p # ps) = authenticates (snd (authenticate c p)) ps"

text \<open>
  The calls a client of the wrapper can make between two \<open>disconnect\<close>s, and a run of
  such calls, each on the state its predecessor left (raised exceptions are caught by
  the caller, as the demo scripts do).
\<close>

datatype claw_call =
    Connect | Setup pystr | Authenticate pystr | Store pystr pystr | Retrieve pystr
  | Delete pystr | GetInfo | ListNames

fun do_call :: "NexusClaw \<Rightarrow> claw_call \<Rightarrow> NexusClaw" where
  "do_call c Connect = snd (connect c)"
| "do_call c (Setup p) = snd (claw_setup c p)"
| "do_call c (Authenticate p) = snd (authenticate c p)"
| "do_call c (Store n v) = snd (store c n v)"
| "do_call c (Retrieve n) = snd (retrieve c n)"
| "do_call c (Delete n) = snd (delete c n)"
| "do_call c GetInfo = c"
| "do_call c ListNames = c"

fun claw_calls :: "NexusClaw \<Rightarrow> claw_call list \<Rightarrow> NexusClaw" where
  "claw_calls c [] = c"
| "claw_calls c (x # xs) = claw_calls (do_call c x) xs"

text \<open>\<open>raises k r\<close>: the call whose result is \<open>r\<close> raised an exception of class \<open>k\<close>.\<close>

definition raises :: "exn_kind \<Rightarrow> exn + 'a \<Rightarrow> bool" where
  "raises k r = (case r of Inl e \<Rightarrow> kind e = k | Inr _ \<Rightarrow> False)"

text \<open>
  The length of the longest run of consecutive failing PINs in a sequence of
  \<open>verify_pin\<close> calls against the stored PIN \<open>q\<close>, where \<open>k\<close> failures immediately
  precede the sequence.
\<close>

fun longest_failure_run :: "pystr option \<Rightarrow> nat \<Rightarrow> pystr list \<Rightarrow> nat" where
  "longest_failure_run q k [] = k"
| "longest_failure_run q k (p # ps) =
     (if Some p = q then max k (longest_failure_run q 0 ps)
      else longest_failure_run q (Suc k) ps)"

text \<open>
  Concrete states for the examples: a connected simulator with PIN \<open>1234\<close> and one
  stored credential, the same with all 32 slots in use, and wrappers around the first.
\<close>

definition example_device :: NexusClawSimulator where
  "example_device =
     \<lparr>connected = True, pin_set = True, pin = Some (py ''1234''),
      slots = [(py ''api_key'', [0x73, 0x6B])],
      max_slots = 32, failed_attempts = 0, max_attempts = 3\<rparr>"

definition full_device :: NexusClawSimulator where
  "full_device = example_device\<lparr>slots := map (\<lambda>i. ([i], [])) [0..<32]\<rparr>"

definition example_claw :: NexusClaw where
  "example_claw = \<lparr>simulation = True, device = example_device, authenticated = True\<rparr>"

definition locked_claw :: NexusClaw where
  "locked_claw = \<lparr>simulation = True, device = example_device, authenticated = False\<rparr>"

section \<open>The vault client used by the two integrations\<close>

text \<open>
  \<open>avp_crewai.py\<close> and \<open>avp_langchain.py\<close> call an \<open>AVPClient\<close> of the package \<open>avp\<close>,
  which lies outside this repository. Their classes are therefore modelled over an arbitrary
  client: a state of type \<open>'c\<close> and the client's methods as functions on it, each of
  which may raise and may change the client's state. The second argument of every
  method is the time at which it runs (the client reads the clock itself). A session
  identifier is an opaque token. \<open>cl_retrieve\<close> returns \<open>result.value\<close>,
  \<open>cl_list_secrets\<close> the names of \<open>result.secrets\<close>, \<open>cl_delete\<close> \<open>result.deleted\<close>.
\<close>

type_synonym session_id = nat

record 'c AVPClient =
  cl_authenticate :: "'c \<Rightarrow> nat \<Rightarrow> pystr \<Rightarrow> (exn + session_id) \<times> 'c"
  cl_store ::
    "'c \<Rightarrow> nat \<Rightarrow> session_id \<Rightarrow> pystr \<Rightarrow> bytes \<Rightarrow> (pystr \<times> pystr) list option
     \<Rightarrow> (exn + unit) \<times> 'c"
  cl_retrieve :: "'c \<Rightarrow> nat \<Rightarrow> session_id \<Rightarrow> pystr \<Rightarrow> (exn + bytes) \<times> 'c"
  cl_delete :: "'c \<Rightarrow> nat \<Rightarrow> session_id \<Rightarrow> pystr \<Rightarrow> (exn + bool) \<times> 'c"
  cl_list_secrets :: "'c \<Rightarrow> nat \<Rightarrow> session_id \<Rightarrow> (exn + pystr list) \<times> 'c"
  cl_rotate :: "'c \<Rightarrow> nat \<Rightarrow> session_id \<Rightarrow> pystr \<Rightarrow> bytes \<Rightarrow> (exn + unit) \<times> 'c"

section \<open>\<open>demos/03-crewai-avp/avp_crewai.py\<close>\<close>

text \<open>
  One dictionary of \<open>_audit_log\<close>; the timestamp is the time of the call, and
  \<open>credential\<close> is \<open>None\<close> when \<open>_log_access\<close> is called without it.
\<close>

record audit_entry =
  timestamp :: nat
  workspace :: pystr
  action :: pystr
  credential :: "pystr option"

text \<open>
  The state of an \<open>AVPCredentialManager\<close> after \<open>__init__\<close>: the connected client, the
  dictionary from workspace to session identifier and the audit log. (\<open>vault_path\<close> and
  \<open>_password\<close> are only read by \<open>_connect\<close>.) Every method below takes the client's
  methods \<open>cl\<close> and the time \<open>now\<close> at which it is called; \<open>get\<close>, \<open>set\<close> and \<open>rotate\<close> are
  named \<open>mgr_get\<close>, \<open>mgr_set\<close> and \<open>mgr_rotate\<close>.
\<close>

record 'c AVPCredentialManager =
  client :: 'c
  sessions :: "(pystr \<times> session_id) list"
  audit_log :: "audit_entry list"

definition log_access ::
  "'c AVPCredentialManager \<Rightarrow> nat \<Rightarrow> pystr \<Rightarrow> pystr \<Rightarrow> pystr option \<Rightarrow> 'c AVPCredentialManager" where
  "log_access m now ws act cred =
     m\<lparr>audit_log := audit_log m
          @ [\<lparr>timestamp = now, workspace = ws, action = act, credential = cred\<rparr>]\<rparr>"

text \<open>
  \<open>_get_session\<close>: the cached session of the workspace, or a new one from the client,
  which is cached and logged as \<open>session_created\<close>. When \<open>authenticate\<close> raises, nothing
  is cached or logged.
\<close>

definition get_session ::
  "'c AVPClient \<Rightarrow> 'c AVPCredentialManager \<Rightarrow> nat \<Rightarrow> pystr
   \<Rightarrow> (exn + session_id) \<times> 'c AVPCredentialManager" where
  "get_session cl m now ws =
     (case map_of (sessions m) ws of
        Some sid \<Rightarrow> (Inr sid, m)
      | None \<Rightarrow>
          (case cl_authenticate cl (client m) now ws of
             (Inl e, c') \<Rightarrow> (Inl e, m\<lparr>client := c'\<rparr>)
           | (Inr sid, c') \<Rightarrow>
               (Inr sid,
                log_access (m\<lparr>client := c', sessions := dict_set ws sid (sessions m)\<rparr>)
                  now ws (py ''session_created'') None)))"

text \<open>
  \<open>get\<close>, \<open>set\<close>, \<open>rotate\<close>: the session, the client call, then \<open>_log_access\<close>. An
  exception of the client call propagates before the log is written. In \<open>get\<close> the
  value is decoded after the log is written; in \<open>set\<close> and \<open>rotate\<close> it is encoded after
  the session is obtained and before the client is called.
\<close>

definition mgr_get ::
  "'c AVPClient \<Rightarrow> 'c AVPCredentialManager \<Rightarrow> nat \<Rightarrow> pystr \<Rightarrow> pystr
   \<Rightarrow> (exn + pystr) \<times> 'c AVPCredentialManager" where
  "mgr_get cl m now ws name =
     (case get_session cl m now ws of
        (Inl e, m1) \<Rightarrow> (Inl e, m1)
      | (Inr sid, m1) \<Rightarrow>
          (case cl_retrieve cl (client m1) now sid name of
             (Inl e, c') \<Rightarrow> (Inl e, m1\<lparr>client := c'\<rparr>)
           | (Inr v, c') \<Rightarrow>
               (bytes_decode v,
                log_access (m1\<lparr>client := c'\<rparr>) now ws (py ''retrieve'') (Some name))))"

definition mgr_set ::
  "'c AVPClient \<Rightarrow> 'c AVPCredentialManager \<Rightarrow> nat \<Rightarrow> pystr \<Rightarrow> pystr \<Rightarrow> pystr
   \<Rightarrow> (pystr \<times> pystr) list option \<Rightarrow> (exn + unit) \<times> 'c AVPCredentialManager" where
  "mgr_set cl m now ws name v labels =
     (case get_session cl m now ws of
        (Inl e, m1) \<Rightarrow> (Inl e, m1)
      | (Inr sid, m1) \<Rightarrow>
          (case str_encode v of
             Inl e \<Rightarrow> (Inl e, m1)
           | Inr b \<Rightarrow>
               (case cl_store cl (client m1) now sid name b labels of
                  (Inl e, c') \<Rightarrow> (Inl e, m1\<lparr>client := c'\<rparr>)
                | (Inr u, c') \<Rightarrow>
                    (Inr (), log_access (m1\<lparr>client := c'\<rparr>) now ws (py ''store'') (Some name)))))"

definition mgr_rotate ::
  "'c AVPClient \<Rightarrow> 'c AVPCredentialManager \<Rightarrow> nat \<Rightarrow> pystr \<Rightarrow> pystr \<Rightarrow> pystr
   \<Rightarrow> (exn + unit) \<times> 'c AVPCredentialManager" where
  "mgr_rotate cl m now ws name new_value =
     (case get_session cl m now ws of
        (Inl e, m1) \<Rightarrow> (Inl e, m1)
      | (Inr sid, m1) \<Rightarrow>
          (case str_encode new_value of
             Inl e \<Rightarrow> (Inl e, m1)
           | Inr b \<Rightarrow>
               (case cl_rotate cl (client m1) now sid name b of
                  (Inl e, c') \<Rightarrow> (Inl e, m1\<lparr>client := c'\<rparr>)
                | (Inr u, c') \<Rightarrow>
                    (Inr (), log_access (m1\<lparr>client := c'\<rparr>) now ws (py ''rotate'') (Some name)))))"

text \<open>
  \<open>list_credentials\<close> does not call \<open>_log_access\<close>.
\<close>

definition list_credentials ::
  "'c AVPClient \<Rightarrow> 'c AVPCredentialManager \<Rightarrow> nat \<Rightarrow> pystr
   \<Rightarrow> (exn + pystr list) \<times> 'c AVPCredentialManager" where
  "list_credentials cl m now ws =
     (case get_session cl m now ws of
        (Inl e, m1) \<Rightarrow> (Inl e, m1)
      | (Inr sid, m1) \<Rightarrow>
          (case cl_list_secrets cl (client m1) now sid of
             (r, c') \<Rightarrow> (r, m1\<lparr>client := c'\<rparr>)))"

definition get_audit_log :: "'c AVPCredentialManager \<Rightarrow> audit_entry list" where
  "get_audit_log m = audit_log m"

text \<open>
  A call of one of the four methods of the manager that use the client, with the time
  at which it is made, and a run of such calls, each on the state its predecessor left
  (an exception a call raises is caught by the caller, as the demo scripts do).
\<close>

datatype mgr_call =
    MGet pystr pystr
  | MSet pystr pystr pystr "(pystr \<times> pystr) list option"
  | MRotate pystr pystr pystr
  | MList pystr

fun mgr_step ::
  "'c AVPClient \<Rightarrow> 'c AVPCredentialManager \<Rightarrow> nat \<times> mgr_call \<Rightarrow> 'c AVPCredentialManager" where
  "mgr_step cl m (now, MGet ws name) = snd (mgr_get cl m now ws name)"
| "mgr_step cl m (now, MSet ws name v lbls) = snd (mgr_set cl m now ws name v lbls)"
| "mgr_step cl m (now, MRotate ws name v) = snd (mgr_rotate cl m now ws name v)"
| "mgr_step cl m (now, MList ws) = snd (list_credentials cl m now ws)"

fun mgr_run ::
  "'c AVPClient \<Rightarrow> 'c AVPCredentialManager \<Rightarrow> (nat \<times> mgr_call) list
   \<Rightarrow> 'c AVPCredentialManager" where
  "mgr_run cl m [] = m"
| "mgr_run cl m (c # cs) = mgr_run cl (mgr_step cl m c) cs"

text \<open>
  The audit entries one call is to write, read off what happens during the call: a
  \<open>session_created\<close> entry if the workspace has no cached session and \<open>authenticate\<close>
  returns; then a \<open>retrieve\<close> entry if the client's \<open>retrieve\<close> returns, a \<open>store\<close> or
  \<open>rotate\<close> entry if \<open>set\<close> or \<open>rotate\<close> returns normally, and nothing for
  \<open>list_credentials\<close>. \<open>run_entries\<close> collects them along a run.
\<close>

definition session_entries ::
  "'c AVPClient \<Rightarrow> 'c AVPCredentialManager \<Rightarrow> nat \<Rightarrow> pystr \<Rightarrow> audit_entry list" where
  "session_entries cl m now ws =
     (if map_of (sessions m) ws = None \<and> \<not> isl (fst (cl_authenticate cl (client m) now ws))
      then [\<lparr>timestamp = now, workspace = ws, action = py ''session_created'',
             credential = None\<rparr>]
      else [])"

fun call_entries ::
  "'c AVPClient \<Rightarrow> 'c AVPCredentialManager \<Rightarrow> nat \<times> mgr_call \<Rightarrow> audit_entry list" where
  "call_entries cl m (now, MGet ws name) =
     session_entries cl m now ws @
       (case get_session cl m now ws of
          (Inl e, m1) \<Rightarrow> []
        | (Inr sid, m1) \<Rightarrow>
            if isl (fst (cl_retrieve cl (client m1) now sid name)) then []
            else [\<lparr>timestamp = now, workspace = ws, action = py ''retrieve'',
                   credential = Some name\<rparr>])"
| "call_entries cl m (now, MSet ws name v lbls) =
     session_entries cl m now ws @
       (if isl (fst (mgr_set cl m now ws name v lbls)) then []
        else [\<lparr>timestamp = now, workspace = ws, action = py ''store'',
               credential = Some name\<rparr>])"
| "call_entries cl m (now, MRotate ws name v) =
     session_entries cl m now ws @
       (if isl (fst (mgr_rotate cl m now ws name v)) then []
        else [\<lparr>timestamp = now, workspace = ws, action = py ''rotate'',
               credential = Some name\<rparr>])"
| "call_entries cl m (now, MList ws) = session_entries cl m now ws"

fun run_entries ::
  "'c AVPClient \<Rightarrow> 'c AVPCredentialManager \<Rightarrow> (nat \<times> mgr_call) list \<Rightarrow> audit_entry list" where
  "run_entries cl m [] = []"
| "run_entries cl m (c # cs) = call_entries cl m c @ run_entries cl (mgr_step cl m c) cs"


section \<open>\<open>demos/02-langchain-avp/avp_langchain.py\<close>\<close>

text \<open>
  The state of an \<open>AVPCredentialProvider\<close> after \<open>__init__\<close>; \<open>provider_connect\<close> is the
  part of \<open>_connect\<close> that opens the one session the provider uses.
\<close>

record 'c AVPCredentialProvider =
  provider_client :: 'c
  provider_workspace :: pystr
  provider_session :: session_id

definition provider_connect ::
  "'c AVPClient \<Rightarrow> 'c \<Rightarrow> nat \<Rightarrow> pystr \<Rightarrow> exn + 'c AVPCredentialProvider" where
  "provider_connect cl c now ws =
     (case cl_authenticate cl c now ws of
        (Inl e, c') \<Rightarrow> Inl e
      | (Inr sid, c') \<Rightarrow>
          Inr \<lparr>provider_client = c', provider_workspace = ws, provider_session = sid\<rparr>)"

text \<open>
  \<open>get\<close> catches every \<open>Exception\<close> raised by the client call or by \<open>decode\<close> and, inside
  the handler, raises \<open>KeyError(f"Credential '{name}' not found in vault: {e}")\<close>. The
  new exception has class \<open>KeyError\<close>, its message ends with \<open>str(e)\<close>, and Python attaches
  the caught exception \<open>e\<close> to it as \<open>__context__\<close>. \<open>str_of\<close> is \<open>str\<close> on exceptions.
\<close>

definition not_found_in_vault :: "(exn \<Rightarrow> pystr) \<Rightarrow> pystr \<Rightarrow> exn \<Rightarrow> exn" where
  "not_found_in_vault str_of name e =
     Raised KeyError
       (py ''Credential '' @ [39] @ name @ [39] @ py '' not found in vault: '' @ str_of e)
       (Some e)"

definition provider_get ::
  "'c AVPClient \<Rightarrow> (exn \<Rightarrow> pystr) \<Rightarrow> 'c AVPCredentialProvider \<Rightarrow> nat \<Rightarrow> pystr
   \<Rightarrow> (exn + pystr) \<times> 'c AVPCredentialProvider" where
  "provider_get cl str_of p now name =
     (case cl_retrieve cl (provider_client p) now (provider_session p) name of
        (Inl e, c') \<Rightarrow> (Inl (not_found_in_vault str_of name e), p\<lparr>provider_client := c'\<rparr>)
      | (Inr v, c') \<Rightarrow>
          (case bytes_decode v of
             Inl e \<Rightarrow> (Inl (not_found_in_vault str_of name e), p\<lparr>provider_client := c'\<rparr>)
           | Inr s \<Rightarrow> (Inr s, p\<lparr>provider_client := c'\<rparr>)))"

definition provider_set ::
  "'c AVPClient \<Rightarrow> 'c AVPCredentialProvider \<Rightarrow> nat \<Rightarrow> pystr \<Rightarrow> pystr
   \<Rightarrow> (exn + unit) \<times> 'c AVPCredentialProvider" where
  "provider_set cl p now name v =
     (case str_encode v of
        Inl e \<Rightarrow> (Inl e, p)
      | Inr b \<Rightarrow>
          (case cl_store cl (provider_client p) now (provider_session p) name b None of
             (r, c') \<Rightarrow> (r, p\<lparr>provider_client := c'\<rparr>)))"

definition provider_delete ::
  "'c AVPClient \<Rightarrow> 'c AVPCredentialProvider \<Rightarrow> nat \<Rightarrow> pystr
   \<Rightarrow> (exn + bool) \<times> 'c AVPCredentialProvider" where
  "provider_delete cl p now name =
     (case cl_delete cl (provider_client p) now (provider_session p) name of
        (r, c') \<Rightarrow> (r, p\<lparr>provider_client := c'\<rparr>))"

definition provider_list ::
  "'c AVPClient \<Rightarrow> 'c AVPCredentialProvider \<Rightarrow> nat
   \<Rightarrow> (exn + pystr list) \<times> 'c AVPCredentialProvider" where
  "provider_list cl p now =
     (case cl_list_secrets cl (provider_client p) now (provider_session p) of
        (r, c') \<Rightarrow> (r, p\<lparr>provider_client := c'\<rparr>))"

definition provider_rotate ::
  "'c AVPClient \<Rightarrow> 'c AVPCredentialProvider \<Rightarrow> nat \<Rightarrow> pystr \<Rightarrow> pystr
   \<Rightarrow> (exn + unit) \<times> 'c AVPCredentialProvider" where
  "provider_rotate cl p now name new_value =
     (case str_encode new_value of
        Inl e \<Rightarrow> (Inl e, p)
      | Inr b \<Rightarrow>
          (case cl_rotate cl (provider_client p) now (provider_session p) name b of
             (r, c') \<Rightarrow> (r, p\<lparr>provider_client := c'\<rparr>)))"

section \<open>The vault engine of the specification\<close>

text \<open>
  Modelled from the spec: the \<open>Secret\<close> and \<open>Session\<close> of its data model (section 3). The
  class \<open>AVPClient\<close> and its backends belong to the package \<open>avp\<close>, outside this
  repository; this section gives the client the behaviour the specification describes,
  to have a concrete client to run the integrations against.
\<close>

record secret =
  secret_value :: bytes
  version :: int
  labels :: "(pystr \<times> pystr) list"
  created_at :: nat
  updated_at :: nat

record session =
  session_workspace :: pystr
  issued_at :: nat
  ttl :: nat
  expires_at :: nat

text \<open>
  Modelled from the spec: the state of the vault engine, which is absent from the
  repository. Secrets are keyed by (workspace, name) in insertion order, as the backend
  contract says; the engine owns its live sessions, indexed by session identifier;
  \<open>session_ttl\<close> is the configured time to live (default 3600 s).
\<close>

record vault_engine =
  vault :: "((pystr \<times> pystr) \<times> secret) list"
  live_sessions :: "(session_id \<times> session) list"
  next_session :: session_id
  session_ttl :: nat

text \<open>
  Modelled from the spec: \<open>AVPClient.authenticate\<close>, absent from the repository. It issues a
  new session bound to exactly one workspace, with a fresh identifier and
  \<open>expires_at = issued_at + ttl\<close>. (The master credential was given to the backend when
  the client was built.)
\<close>

definition engine_authenticate ::
  "vault_engine \<Rightarrow> nat \<Rightarrow> pystr \<Rightarrow> (exn + session_id) \<times> vault_engine" where
  "engine_authenticate e now ws =
     (let sid = next_session e;
          s = \<lparr>session_workspace = ws, issued_at = now, ttl = session_ttl e,
               expires_at = now + session_ttl e\<rparr>
      in (Inr sid, e\<lparr>live_sessions := dict_set sid s (live_sessions e),
                     next_session := Suc sid\<rparr>))"

text \<open>
  Modelled from the spec: the validity check every engine operation makes. A session is
  valid only while \<open>now < expires_at\<close>, otherwise \<open>SessionExpiredError\<close>. The specification
  does not name the failure for a token the engine never issued; it is taken to be an
  \<open>AuthenticationError\<close>.
\<close>

definition check_session :: "vault_engine \<Rightarrow> nat \<Rightarrow> session_id \<Rightarrow> exn + session" where
  "check_session e now sid =
     (case map_of (live_sessions e) sid of
        None \<Rightarrow> Inl (Exn AuthenticationError (py ''unknown session''))
      | Some s \<Rightarrow>
          if now < expires_at s then Inr s
          else Inl (Exn SessionExpiredError (py ''session expired'')))"

text \<open>
  Modelled from the spec: \<open>STORE\<close> (\<open>AVPClient.store\<close>, absent from the repository), a
  destructive overwrite in the session's workspace that sets the version to 1.
\<close>

definition engine_store ::
  "vault_engine \<Rightarrow> nat \<Rightarrow> session_id \<Rightarrow> pystr \<Rightarrow> bytes \<Rightarrow> (pystr \<times> pystr) list option
   \<Rightarrow> (exn + unit) \<times> vault_engine" where
  "engine_store e now sid name v lbls =
     (case check_session e now sid of
        Inl err \<Rightarrow> (Inl err, e)
      | Inr s \<Rightarrow>
          (Inr (),
           e\<lparr>vault := dict_set (session_workspace s, name)
                         \<lparr>secret_value = v, version = 1,
                          labels = (case lbls of None \<Rightarrow> [] | Some l \<Rightarrow> l),
                          created_at = now, updated_at = now\<rparr>
                         (vault e)\<rparr>))"

text \<open>
  Modelled from the spec: \<open>RETRIEVE\<close> (\<open>AVPClient.retrieve\<close>, absent from the repository). It
  returns the current value of the secret of that name in the session's workspace and
  fails with \<open>NotFoundError\<close> if it is absent in this workspace, even if present in
  another.
\<close>

definition engine_retrieve ::
  "vault_engine \<Rightarrow> nat \<Rightarrow> session_id \<Rightarrow> pystr \<Rightarrow> (exn + bytes) \<times> vault_engine" where
  "engine_retrieve e now sid name =
     (case check_session e now sid of
        Inl err \<Rightarrow> (Inl err, e)
      | Inr s \<Rightarrow>
          (case map_of (vault e) (session_workspace s, name) of
             None \<Rightarrow> (Inl (Exn NotFoundError (py ''secret not found'')), e)
           | Some x \<Rightarrow> (Inr (secret_value x), e)))"

text \<open>
  Modelled from the spec: \<open>DELETE\<close> (\<open>AVPClient.delete\<close>, absent from the repository),
  idempotent, returning whether a secret was removed.
\<close>

definition engine_delete ::
  "vault_engine \<Rightarrow> nat \<Rightarrow> session_id \<Rightarrow> pystr \<Rightarrow> (exn + bool) \<times> vault_engine" where
  "engine_delete e now sid name =
     (case check_session e now sid of
        Inl err \<Rightarrow> (Inl err, e)
      | Inr s \<Rightarrow>
          (case map_of (vault e) (session_workspace s, name) of
             None \<Rightarrow> (Inr False, e)
           | Some x \<Rightarrow> (Inr True, e\<lparr>vault := dict_del (session_workspace s, name) (vault e)\<rparr>)))"

text \<open>
  Modelled from the spec: \<open>LIST\<close> (\<open>AVPClient.list_secrets\<close>, absent from the repository), the
  names of the session's workspace in insertion order.
\<close>

definition engine_list_secrets ::
  "vault_engine \<Rightarrow> nat \<Rightarrow> session_id \<Rightarrow> (exn + pystr list) \<times> vault_engine" where
  "engine_list_secrets e now sid =
     (case check_session e now sid of
        Inl err \<Rightarrow> (Inl err, e)
      | Inr s \<Rightarrow>
          (Inr (map (snd \<circ> fst) (filter (\<lambda>kv. fst (fst kv) = session_workspace s) (vault e))),
           e))"

text \<open>
  Modelled from the spec: \<open>ROTATE\<close> (\<open>AVPClient.rotate\<close>, absent from the repository). It
  increments the version and overwrites the value; a missing secret is a
  \<open>NotFoundError\<close>.
\<close>

definition engine_rotate ::
  "vault_engine \<Rightarrow> nat \<Rightarrow> session_id \<Rightarrow> pystr \<Rightarrow> bytes \<Rightarrow> (exn + unit) \<times> vault_engine" where
  "engine_rotate e now sid name v =
     (case check_session e now sid of
        Inl err \<Rightarrow> (Inl err, e)
      | Inr s \<Rightarrow>
          (case map_of (vault e) (session_workspace s, name) of
             None \<Rightarrow> (Inl (Exn NotFoundError (py ''secret not found'')), e)
           | Some x \<Rightarrow>
               (Inr (),
                e\<lparr>vault := dict_set (session_workspace s, name)
                              (x\<lparr>secret_value := v, version := version x + 1,
                                 updated_at := now\<rparr>)
                              (vault e)\<rparr>)))"

text \<open>
  Modelled from the spec: the engine as a client of the two integrations, a new vault,
  and a manager connected to a new vault.
\<close>

definition engine :: "vault_engine AVPClient" where
  "engine =
     \<lparr>cl_authenticate = engine_authenticate, cl_store = engine_store,
      cl_retrieve = engine_retrieve, cl_delete = engine_delete,
      cl_list_secrets = engine_list_secrets, cl_rotate = engine_rotate\<rparr>"

text \<open>
  Modelled from the spec: a client whose backend is unreachable, so that \<open>authenticate\<close>
  fails with \<open>ConnectionError\<close> (section 7); the client is absent from the repository.
\<close>

definition offline :: "vault_engine AVPClient" where
  "offline =
     engine\<lparr>cl_authenticate :=
              (\<lambda>c now ws. (Inl (Exn ConnectionError (py ''backend unreachable'')), c))\<rparr>"

definition new_vault :: vault_engine where
  "new_vault = \<lparr>vault = [], live_sessions = [], next_session = 0, session_ttl = 3600\<rparr>"

definition new_manager :: "vault_engine AVPCredentialManager" where
  "new_manager = \<lparr>client = new_vault, sessions = [], audit_log = []\<rparr>"

text \<open>
  Concrete states for the examples, all over the engine modelled from the spec: a
  provider connected at time 0 to a new vault in workspace \<open>langchain\<close>; the same after
  the bytes \<open>FF\<close> (not UTF-8) were stored in its workspace as \<open>bad\<close> and the bytes of
  \<open>ok\<close> as \<open>good\<close>; a manager on a new vault after
  \<open>set("researcher", "anthropic_api_key", "sk-ant-test")\<close> at time 0; and that manager
  after the bytes \<open>FF\<close> were stored through its client as \<open>blob\<close> in \<open>researcher\<close>.
\<close>

definition example_provider :: "vault_engine AVPCredentialProvider" where
  "example_provider =
     \<lparr>provider_client = snd (engine_authenticate new_vault 0 (py ''langchain'')),
      provider_workspace = py ''langchain'', provider_session = 0\<rparr>"

definition stored_provider :: "vault_engine AVPCredentialProvider" where
  "stored_provider =
     example_provider
       \<lparr>provider_client :=
          snd (engine_store
                 (snd (engine_store (provider_client example_provider) 1 0 (py ''bad'') [0xFF]
                         None))
                 2 0 (py ''good'') [0x6F, 0x6B] None)\<rparr>"

definition example_manager :: "vault_engine AVPCredentialManager" where
  "example_manager =
     snd (mgr_set engine new_manager 0 (py ''researcher'') (py ''anthropic_api_key'')
            (py ''sk-ant-test'') None)"

definition undecodable_manager :: "vault_engine AVPCredentialManager" where
  "undecodable_manager =
     example_manager
       \<lparr>client := snd (engine_store (client example_manager) 1 0 (py ''blob'') [0xFF] None)\<rparr>"

text \<open>
  The manager on the engine: every cached session identifier is a live session of the
  engine bound to the workspace it is cached for, and the engine has issued every live
  identifier. This holds for a new manager and is kept by every method.
\<close>

definition sessions_bound :: "vault_engine AVPCredentialManager \<Rightarrow> bool" where
  "sessions_bound m =
     (list_all (\<lambda>(ws, sid). case map_of (live_sessions (client m)) sid of
                                None \<Rightarrow> False
                              | Some s \<Rightarrow> session_workspace s = ws) (sessions m) \<and>
      list_all (\<lambda>(sid, s). sid < next_session (client m)) (live_sessions (client m)))"

text \<open>
  The session a call for workspace \<open>ws\<close> at time \<open>now\<close> will use is valid: the cached one
  has not expired, or a new one will be issued with a positive time to live.
\<close>

definition session_live :: "vault_engine AVPCredentialManager \<Rightarrow> nat \<Rightarrow> pystr \<Rightarrow> bool" where
  "session_live m now ws =
     (case map_of (sessions m) ws of
        None \<Rightarrow> 0 < session_ttl (client m)
      | Some sid \<Rightarrow>
          (case map_of (live_sessions (client m)) sid of
             None \<Rightarrow> False
           | Some s \<Rightarrow> now < expires_at s))"

text \<open>
  The vault holds a secret named \<open>n\<close> in workspace \<open>w\<close> and in no other workspace.
\<close>

definition stored_only_in :: "vault_engine \<Rightarrow> pystr \<Rightarrow> pystr \<Rightarrow> bool" where
  "stored_only_in e w n =
     (map_of (vault e) (w, n) \<noteq> None \<and>
      list_all (\<lambda>kv. snd (fst kv) = n \<longrightarrow> fst (fst kv) = w) (vault e))"

section \<open>Properties of the codec\<close>

lemma unat8: "n < 256 \<Longrightarrow> unat (of_nat n :: 8 word) = n"
  by (simp add: unat_of_nat)

lemma dec1:
  "unat b0 < 0x80 \<Longrightarrow> bytes_decode (b0 # r) = dcons (unat b0) (bytes_decode r)"
  by simp

lemma dec2:
  "0xC2 \<le> unat b0 \<Longrightarrow> unat b0 < 0xE0 \<Longrightarrow> is_cont b1 \<Longrightarrow>
   bytes_decode (b0 # b1 # r) = dcons ((unat b0 - 0xC0) * 64 + cont_bits b1) (bytes_decode r)"
  by simp

lemma dec3:
  "0xE0 \<le> unat b0 \<Longrightarrow> unat b0 < 0xF0 \<Longrightarrow> is_cont b1 \<Longrightarrow> is_cont b2 \<Longrightarrow>
   c = (unat b0 - 0xE0) * 4096 + cont_bits b1 * 64 + cont_bits b2 \<Longrightarrow>
   0x800 \<le> c \<Longrightarrow> \<not> (0xD800 \<le> c \<and> c \<le> 0xDFFF) \<Longrightarrow>
   bytes_decode (b0 # b1 # b2 # r) = dcons c (bytes_decode r)"
  by (simp add: Let_def)

lemma dec4:
  "0xF0 \<le> unat b0 \<Longrightarrow> unat b0 < 0xF5 \<Longrightarrow> is_cont b1 \<Longrightarrow> is_cont b2 \<Longrightarrow> is_cont b3 \<Longrightarrow>
   c = (unat b0 - 0xF0) * 262144 + cont_bits b1 * 4096 + cont_bits b2 * 64 + cont_bits b3 \<Longrightarrow>
   0x10000 \<le> c \<Longrightarrow> c < 0x110000 \<Longrightarrow>
   bytes_decode (b0 # b1 # b2 # b3 # r) = dcons c (bytes_decode r)"
  by (simp add: Let_def)

lemma enc_dec1:
  assumes "c < 0x80"
  shows "bytes_decode ((of_nat c :: 8 word) # r) = dcons c (bytes_decode r)"
proof -
  have u: "unat (of_nat c :: 8 word) = c" using assms by (simp add: unat8)
  show ?thesis using dec1 [of "of_nat c" r] assms by (simp only: u)
qed

lemma enc_dec2:
  assumes "0x80 \<le> c" "c < 0x800"
  shows "bytes_decode ((of_nat (0xC0 + c div 64) :: 8 word) # of_nat (0x80 + c mod 64) # r)
         = dcons c (bytes_decode r)"
proof -
  have d: "c div 64 < 32" "2 \<le> c div 64" using assms by arith+
  have u0: "unat (of_nat (0xC0 + c div 64) :: 8 word) = 0xC0 + c div 64"
    using d by (intro unat8) arith
  have u1: "unat (of_nat (0x80 + c mod 64) :: 8 word) = 0x80 + c mod 64"
    by (intro unat8) arith
  have k: "is_cont (of_nat (0x80 + c mod 64))"
    unfolding is_cont_def u1 by arith
  have cb: "cont_bits (of_nat (0x80 + c mod 64)) = c mod 64"
    unfolding cont_bits_def u1 by simp
  have v: "(unat (of_nat (0xC0 + c div 64) :: 8 word) - 0xC0) * 64
           + cont_bits (of_nat (0x80 + c mod 64)) = c"
    unfolding u0 cb by simp
  have lo: "0xC2 \<le> unat (of_nat (0xC0 + c div 64) :: 8 word)"
    unfolding u0 using d by arith
  have hi: "unat (of_nat (0xC0 + c div 64) :: 8 word) < 0xE0"
    unfolding u0 using d by arith
  show ?thesis using dec2 [OF lo hi k, of r] by (simp only: v)
qed

lemma split3: "(c::nat) = c div 4096 * 4096 + c div 64 mod 64 * 64 + c mod 64"
proof -
  have "c mod (64 * 64) = 64 * (c div 64 mod 64) + c mod 64" by (rule mod_mult2_eq)
  then have "c mod 4096 = c div 64 mod 64 * 64 + c mod 64" by simp
  moreover have "c = c div 4096 * 4096 + c mod 4096" by simp
  ultimately show ?thesis by linarith
qed

lemma split4:
  "(c::nat) = c div 262144 * 262144 + c div 4096 mod 64 * 4096 + c div 64 mod 64 * 64 + c mod 64"
proof -
  have "c mod (4096 * 64) = 4096 * (c div 4096 mod 64) + c mod 4096" by (rule mod_mult2_eq)
  then have a: "c mod 262144 = c div 4096 mod 64 * 4096 + c mod 4096" by simp
  have "c mod (64 * 64) = 64 * (c div 64 mod 64) + c mod 64" by (rule mod_mult2_eq)
  then have b: "c mod 4096 = c div 64 mod 64 * 64 + c mod 64" by simp
  have "c = c div 262144 * 262144 + c mod 262144" by simp
  with a b show ?thesis by linarith
qed

lemma enc_dec3:
  assumes "0x800 \<le> c" "c < 0x10000" "\<not> (0xD800 \<le> c \<and> c \<le> 0xDFFF)"
  shows "bytes_decode ((of_nat (0xE0 + c div 4096) :: 8 word) # of_nat (0x80 + c div 64 mod 64)
                       # of_nat (0x80 + c mod 64) # r)
         = dcons c (bytes_decode r)"
proof -
  have d: "c div 4096 < 16" using assms by arith
  have u0: "unat (of_nat (0xE0 + c div 4096) :: 8 word) = 0xE0 + c div 4096"
    using d by (intro unat8) arith
  have u1: "unat (of_nat (0x80 + c div 64 mod 64) :: 8 word) = 0x80 + c div 64 mod 64"
    by (intro unat8) arith
  have u2: "unat (of_nat (0x80 + c mod 64) :: 8 word) = 0x80 + c mod 64"
    by (intro unat8) arith
  have k1: "is_cont (of_nat (0x80 + c div 64 mod 64))"
    unfolding is_cont_def u1 by arith
  have k2: "is_cont (of_nat (0x80 + c mod 64))"
    unfolding is_cont_def u2 by arith
  have lo: "0xE0 \<le> unat (of_nat (0xE0 + c div 4096) :: 8 word)"
    unfolding u0 by arith
  have hi: "unat (of_nat (0xE0 + c div 4096) :: 8 word) < 0xF0"
    unfolding u0 using d by arith
  have v: "c = (unat (of_nat (0xE0 + c div 4096) :: 8 word) - 0xE0) * 4096
               + cont_bits (of_nat (0x80 + c div 64 mod 64)) * 64
               + cont_bits (of_nat (0x80 + c mod 64))"
    unfolding cont_bits_def u0 u1 u2 using split3 [of c] by simp
  show ?thesis using dec3 [OF lo hi k1 k2 v assms(1) assms(3), of r] .
qed

lemma enc_dec4:
  assumes "0x10000 \<le> c" "c < 0x110000"
  shows "bytes_decode ((of_nat (0xF0 + c div 262144) :: 8 word) # of_nat (0x80 + c div 4096 mod 64)
                       # of_nat (0x80 + c div 64 mod 64) # of_nat (0x80 + c mod 64) # r)
         = dcons c (bytes_decode r)"
proof -
  have d: "c div 262144 < 5" using assms by arith
  have u0: "unat (of_nat (0xF0 + c div 262144) :: 8 word) = 0xF0 + c div 262144"
    using d by (intro unat8) arith
  have u1: "unat (of_nat (0x80 + c div 4096 mod 64) :: 8 word) = 0x80 + c div 4096 mod 64"
    by (intro unat8) arith
  have u2: "unat (of_nat (0x80 + c div 64 mod 64) :: 8 word) = 0x80 + c div 64 mod 64"
    by (intro unat8) arith
  have u3: "unat (of_nat (0x80 + c mod 64) :: 8 word) = 0x80 + c mod 64"
    by (intro unat8) arith
  have k1: "is_cont (of_nat (0x80 + c div 4096 mod 64))"
    unfolding is_cont_def u1 by arith
  have k2: "is_cont (of_nat (0x80 + c div 64 mod 64))"
    unfolding is_cont_def u2 by arith
  have k3: "is_cont (of_nat (0x80 + c mod 64))"
    unfolding is_cont_def u3 by arith
  have lo: "0xF0 \<le> unat (of_nat (0xF0 + c div 262144) :: 8 word)"
    unfolding u0 by arith
  have hi: "unat (of_nat (0xF0 + c div 262144) :: 8 word) < 0xF5"
    unfolding u0 using d by arith
  have v: "c = (unat (of_nat (0xF0 + c div 262144) :: 8 word) - 0xF0) * 262144
               + cont_bits (of_nat (0x80 + c div 4096 mod 64)) * 4096
               + cont_bits (of_nat (0x80 + c div 64 mod 64)) * 64
               + cont_bits (of_nat (0x80 + c mod 64))"
    unfolding cont_bits_def u0 u1 u2 u3 using split4 [of c] by simp
  show ?thesis using dec4 [OF lo hi k1 k2 k3 v assms(1) assms(2), of r] .
qed

lemma decode_encode_cp:
  assumes "encode_cp c = Some bs"
  shows "bytes_decode (bs @ r) = dcons c (bytes_decode r)"
proof -
  consider "c < 0x80" | "0x80 \<le> c" "c < 0x800"
    | "0x800 \<le> c" "c < 0x10000" | "0x10000 \<le> c" "c < 0x110000" | "0x110000 \<le> c"
    by arith
  then show ?thesis
  proof cases
    case 1
    then have "bs = [of_nat c]" using assms by (simp add: encode_cp_def)
    then show ?thesis using enc_dec1 [OF 1] by simp
  next
    case 2
    then have "bs = [of_nat (0xC0 + c div 64), of_nat (0x80 + c mod 64)]"
      using assms by (simp add: encode_cp_def)
    then show ?thesis using enc_dec2 [OF 2] by simp
  next
    case 3
    then have ns: "\<not> (0xD800 \<le> c \<and> c \<le> 0xDFFF)"
      using assms by (auto simp: encode_cp_def)
    with 3 have "bs = [of_nat (0xE0 + c div 4096), of_nat (0x80 + c div 64 mod 64),
                      of_nat (0x80 + c mod 64)]"
      using assms by (auto simp: encode_cp_def split: if_splits)
    then show ?thesis using enc_dec3 [OF 3 ns] by simp
  next
    case 4
    then have "bs = [of_nat (0xF0 + c div 262144), of_nat (0x80 + c div 4096 mod 64),
                     of_nat (0x80 + c div 64 mod 64), of_nat (0x80 + c mod 64)]"
      using assms by (simp add: encode_cp_def)
    then show ?thesis using enc_dec4 [OF 4] by simp
  next
    case 5
    then show ?thesis using assms by (simp add: encode_cp_def)
  qed
qed

text \<open>Decoding undoes encoding: whatever \<open>encode\<close> accepts, \<open>decode\<close> gives back.\<close>

lemma bytes_decode_str_encode: "str_encode s = Inr b \<Longrightarrow> bytes_decode b = Inr s"
proof (induction s arbitrary: b)
  case Nil
  then show ?case by simp
next
  case (Cons c cs)
  from Cons.prems obtain bs r where
    e: "encode_cp c = Some bs" and t: "str_encode cs = Inr r" and b: "b = bs @ r"
    by (auto split: option.splits sum.splits)
  have "bytes_decode r = Inr cs" using Cons.IH [OF t] .
  then show ?case unfolding b decode_encode_cp [OF e] by (simp add: dcons_def)
qed

section \<open>Properties of the hardware simulator\<close>

lemma verify_pin_fail:
  "pin d \<noteq> Some p \<Longrightarrow>
   verify_pin d p =
     (False, if failed_attempts d + 1 \<ge> max_attempts d
             then d\<lparr>failed_attempts := failed_attempts d + 1, slots := []\<rparr>
             else d\<lparr>failed_attempts := failed_attempts d + 1\<rparr>)"
  by (auto simp: verify_pin_def Let_def)

lemma verify_pin_ok: "pin d = Some p \<Longrightarrow> verify_pin d p = (True, d\<lparr>failed_attempts := 0\<rparr>)"
  by (simp add: verify_pin_def)

lemma verify_pin_pin: "pin (snd (verify_pin d p)) = pin d"
  by (simp add: verify_pin_def Let_def)

lemma verify_pin_max_attempts: "max_attempts (snd (verify_pin d p)) = max_attempts d"
  by (simp add: verify_pin_def Let_def)

lemma device_authenticate: "device (snd (authenticate c p)) = snd (verify_pin (device c) p)"
  by (simp add: authenticate_def split: prod.splits)

lemma fst_authenticate: "fst (authenticate c p) = fst (verify_pin (device c) p)"
  by (simp add: authenticate_def split: prod.splits)

lemma device_authenticates: "device (authenticates c ps) = verify_pins (device c) ps"
  by (induction ps arbitrary: c) (simp_all add: device_authenticate)

lemma dict_set_lookup: "map_of (dict_set k v ps) k = Some v"
  by (induction ps) auto

lemma dict_set_other: "k' \<noteq> k \<Longrightarrow> map_of (dict_set k v ps) k' = map_of ps k'"
  by (induction ps) auto

lemma dict_set_keys: "fst ` set (dict_set k v ps) = insert k (fst ` set ps)"
  by (induction ps) auto

lemma dict_set_distinct: "distinct (map fst ps) \<Longrightarrow> distinct (map fst (dict_set k v ps))"
  by (induction ps) (auto simp: dict_set_keys)

lemma dict_del_distinct: "distinct (map fst ps) \<Longrightarrow> distinct (map fst (dict_del k ps))"
  by (simp add: dict_del_def distinct_map_filter)

lemma sim_store_free:
  "int (length (slots d)) < max_slots d \<Longrightarrow>
   sim_store d name b = (Inr True, d\<lparr>slots := dict_set name b (slots d)\<rparr>)"
  by (simp add: sim_store_def)

lemma sim_retrieve_after_set:
  "sim_retrieve (d\<lparr>slots := dict_set name b (slots d)\<rparr>) name
   = (Inr b, d\<lparr>slots := dict_set name b (slots d)\<rparr>)"
  by (simp add: sim_retrieve_def dict_set_lookup)

text \<open>
  Claim C4. On an authenticated device with a free slot, storing a value under a name
  and then retrieving that name gives back exactly the stored bytes: on the simulator
  for every byte string, and through the wrapper for every \<open>str\<close> that \<open>encode\<close> accepts
  (the stored bytes are its UTF-8 encoding, the value returned is the \<open>str\<close> itself).
\<close>

theorem store_then_retrieve_roundtrip:
  assumes "authenticated c" and "int (length (slots (device c))) < max_slots (device c)"
  shows "fst (sim_store (device c) name b) = Inr True \<and>
         fst (sim_retrieve (snd (sim_store (device c) name b)) name) = Inr b \<and>
         (str_encode v = Inr b \<longrightarrow>
            fst (store c name v) = Inr True \<and>
            fst (retrieve (snd (store c name v)) name) = Inr v)"
proof -
  let ?d' = "(device c)\<lparr>slots := dict_set name b (slots (device c))\<rparr>"
  have s: "sim_store (device c) name b = (Inr True, ?d')"
    using assms(2) by (rule sim_store_free)
  have r: "sim_retrieve ?d' name = (Inr b, ?d')"
    by (rule sim_retrieve_after_set)
  have w: "fst (store c name v) = Inr True \<and> fst (retrieve (snd (store c name v)) name) = Inr v"
    if e: "str_encode v = Inr b"
  proof -
    have st: "store c name v = (Inr True, c\<lparr>device := ?d'\<rparr>)"
      using assms(1) e s by (simp add: store_def)
    have "retrieve (c\<lparr>device := ?d'\<rparr>) name = (bytes_decode b, c\<lparr>device := ?d'\<rparr>)"
      using assms(1) r by (simp add: retrieve_def)
    then show ?thesis using st bytes_decode_str_encode [OF e] by simp
  qed
  show ?thesis using s r w by simp
qed

theorem store_then_retrieve_roundtrip_witness:
  "authenticated example_claw \<and>
   int (length (slots (device example_claw))) < max_slots (device example_claw) \<and>
   str_encode [0x6B, 0xE9] = Inr [0x6B, 0xC3, 0xA9] \<and>
   fst (sim_retrieve (snd (sim_store (device example_claw) (py ''token'') [0x6B, 0xC3, 0xA9]))
          (py ''token'')) = Inr [0x6B, 0xC3, 0xA9] \<and>
   fst (retrieve (snd (store example_claw (py ''token'') [0x6B, 0xE9])) (py ''token''))
     = Inr [0x6B, 0xE9]"
proof -
  have a: "authenticated example_claw" by (simp add: example_claw_def)
  have f: "int (length (slots (device example_claw))) < max_slots (device example_claw)"
    by (simp add: example_claw_def example_device_def)
  have e: "str_encode [0x6B, 0xE9] = Inr [0x6B, 0xC3, 0xA9]"
    by (simp add: encode_cp_def)
  show ?thesis
    using store_then_retrieve_roundtrip
            [OF a f, where name = "py ''token''" and b = "[0x6B, 0xC3, 0xA9]" and v = "[0x6B, 0xE9]"]
          a f e
    by simp
qed

text \<open>
  Claim C5. On a device with a configured PIN, three \<open>authenticate\<close> calls in a row with
  PINs other than the configured one all return \<open>False\<close> and leave the slot mapping
  empty.
\<close>

theorem three_failed_authenticate_wipe:
  assumes "pin (device c) = Some q" and "p1 \<noteq> q" and "p2 \<noteq> q" and "p3 \<noteq> q"
    and "max_attempts (device c) = 3" and "0 \<le> failed_attempts (device c)"
  shows "\<not> fst (authenticate c p1) \<and>
         \<not> fst (authenticate (authenticates c [p1]) p2) \<and>
         \<not> fst (authenticate (authenticates c [p1, p2]) p3) \<and>
         slots (device (authenticates c [p1, p2, p3])) = [] \<and>
         list_slots (device (authenticates c [p1, p2, p3])) = []"
  using assms unfolding device_authenticates fst_authenticate list_slots_def
  by (simp add: verify_pin_fail)

theorem three_failed_authenticate_wipe_witness:
  "pin (device locked_claw) = Some (py ''1234'') \<and> py ''0000'' \<noteq> py ''1234'' \<and>
   py ''1111'' \<noteq> py ''1234'' \<and> py ''4321'' \<noteq> py ''1234'' \<and>
   max_attempts (device locked_claw) = 3 \<and> 0 \<le> failed_attempts (device locked_claw) \<and>
   slots (device locked_claw) \<noteq> [] \<and>
   slots (device (authenticates locked_claw [py ''0000'', py ''1111'', py ''4321''])) = []"
proof -
  have h: "pin (device locked_claw) = Some (py ''1234'')" "py ''0000'' \<noteq> py ''1234''"
    "py ''1111'' \<noteq> py ''1234''" "py ''4321'' \<noteq> py ''1234''"
    "max_attempts (device locked_claw) = 3" "0 \<le> failed_attempts (device locked_claw)"
    by (simp_all add: locked_claw_def example_device_def py_def)
  have n: "slots (device locked_claw) \<noteq> []"
    by (simp add: locked_claw_def example_device_def)
  show ?thesis using three_failed_authenticate_wipe [OF h] h n by simp
qed

section \<open>Properties of setup and capacity\<close>


text \<open>
  Claim C6, as amended. \<open>setup_pin\<close> rejects a PIN shorter than 4 characters with
  \<open>ValueError\<close> and leaves the device unchanged; a PIN of 4 or more characters is stored
  verbatim in \<open>_pin\<close> (no hash and no salt are computed) and \<open>_pin_set\<close> becomes true.
  \<open>NexusClaw.setup\<close> passes the call through.
\<close>

theorem setup_pin_stores_pin_verbatim:
  "(length p < 4 \<longrightarrow>
      setup_pin d p = (Inl (Exn ValueError (py ''PIN must be at least 4 digits'')), d) \<and>
      claw_setup c p
        = (Inl (Exn ValueError (py ''PIN must be at least 4 digits'')), c)) \<and>
   (4 \<le> length p \<longrightarrow>
      setup_pin d p = (Inr True, d\<lparr>pin := Some p, pin_set := True\<rparr>) \<and>
      fst (claw_setup c p) = Inr True \<and>
      pin (device (snd (claw_setup c p))) = Some p \<and>
      pin_set (device (snd (claw_setup c p))))"
  by (auto simp: setup_pin_def claw_setup_def)

theorem setup_pin_stores_pin_verbatim_witness:
  "length (py ''123'') < 4 \<and>
   fst (setup_pin NexusClawSimulator_init (py ''123''))
     = Inl (Exn ValueError (py ''PIN must be at least 4 digits'')) \<and>
   4 \<le> length (py ''1234'') \<and>
   pin (device (snd (claw_setup locked_claw (py ''1234'')))) = Some (py ''1234'')"
  using setup_pin_stores_pin_verbatim [of "py ''123''" NexusClawSimulator_init locked_claw]
        setup_pin_stores_pin_verbatim [of "py ''1234''" NexusClawSimulator_init locked_claw]
  by (simp add: py_def)

text \<open>
  Claim C6 as stated fails: after a successful \<open>setup_pin\<close> with the PIN \<open>1234\<close> the
  device state holds the PIN value itself.
\<close>

theorem setup_pin_keeps_plain_pin:
  "fst (setup_pin NexusClawSimulator_init (py ''1234'')) = Inr True \<and>
   pin (snd (setup_pin NexusClawSimulator_init (py ''1234''))) = Some (py ''1234'')"
  by (simp add: setup_pin_def py_def)

text \<open>
  Claim C7, as amended. When the number of used slots has reached \<open>max_slots\<close>, a
  further \<open>store\<close> raises \<open>ValueError\<close> with the text \<open>No free slots available\<close> and the
  device (so the slot mapping) is exactly as before the call, on the simulator and
  through the authenticated wrapper.
\<close>

theorem store_on_full_device:
  assumes "max_slots (device c) \<le> int (length (slots (device c)))"
  shows "sim_store (device c) name b
           = (Inl (Exn ValueError (py ''No free slots available'')), device c) \<and>
         (authenticated c \<and> str_encode v = Inr b \<longrightarrow>
            store c name v = (Inl (Exn ValueError (py ''No free slots available'')), c))"
  using assms by (simp add: sim_store_def store_def)

theorem store_on_full_device_witness:
  "max_slots full_device \<le> int (length (slots full_device)) \<and>
   str_encode (py ''v'') = Inr [0x76] \<and>
   sim_store full_device (py ''k'') [0x76]
     = (Inl (Exn ValueError (py ''No free slots available'')), full_device) \<and>
   store (example_claw\<lparr>device := full_device\<rparr>) (py ''k'') (py ''v'')
     = (Inl (Exn ValueError (py ''No free slots available'')), example_claw\<lparr>device := full_device\<rparr>)"
proof -
  have f: "max_slots (device (example_claw\<lparr>device := full_device\<rparr>))
           \<le> int (length (slots (device (example_claw\<lparr>device := full_device\<rparr>))))"
    by (simp add: full_device_def example_device_def)
  have e: "str_encode (py ''v'') = Inr [0x76]"
    by (simp add: py_def encode_cp_def)
  have a: "authenticated (example_claw\<lparr>device := full_device\<rparr>)"
    by (simp add: example_claw_def)
  show ?thesis
    using store_on_full_device [OF f, where name = "py ''k''" and b = "[0x76]" and v = "py ''v''"]
          f e a
    by simp
qed

text \<open>
  Claim C7 as stated fails on the class of the exception: with all 32 slots in use
  \<open>store\<close> raises \<open>ValueError\<close>, the class \<open>setup_pin\<close> raises for a short PIN, and
  not a \<open>CapacityError\<close>.
\<close>

theorem full_store_raises_ValueError:
  "int (length (slots full_device)) = max_slots full_device \<and>
   fst (sim_store full_device (py ''k'') [0x76])
     = Inl (Exn ValueError (py ''No free slots available'')) \<and>
   \<not> raises CapacityError (fst (sim_store full_device (py ''k'') [0x76])) \<and>
   raises ValueError (fst (setup_pin full_device (py ''123'')))"
  by (simp add: sim_store_def setup_pin_def full_device_def example_device_def raises_def py_def)

section \<open>The authentication check of the wrapper\<close>


lemma kind_not_authenticated: "kind not_authenticated = PermissionError"
  by (simp add: not_authenticated_def)

lemma authenticate_success:
  "fst (authenticate c p) \<Longrightarrow> authenticated (snd (authenticate c p))"
  by (simp add: authenticate_def split: prod.splits if_splits)

lemma authenticated_do_call: "authenticated c \<Longrightarrow> authenticated (do_call c x)"
  by (cases x)
     (auto simp: connect_def claw_setup_def authenticate_def store_def retrieve_def delete_def
           split: prod.splits sum.splits if_splits)

lemma authenticated_claw_calls: "authenticated c \<Longrightarrow> authenticated (claw_calls c xs)"
  by (induction xs arbitrary: c) (simp_all add: authenticated_do_call)

lemma sim_store_no_permission: "\<not> raises PermissionError (fst (sim_store d n b))"
  by (simp add: sim_store_def raises_def)

lemma sim_retrieve_no_permission: "\<not> raises PermissionError (fst (sim_retrieve d n))"
  by (simp add: sim_retrieve_def raises_def split: option.splits)

lemma str_encode_kind: "str_encode v = Inl e \<Longrightarrow> kind e = UnicodeEncodeError"
  by (induction v) (auto split: option.splits sum.splits)

lemma dcons_kind: "dcons c r = Inl e \<Longrightarrow> r = Inl e"
  by (auto simp: dcons_def split: sum.splits)

lemma bytes_decode_error: "bytes_decode b = Inl e \<Longrightarrow> e = decode_error"
proof (induction b arbitrary: e rule: bytes_decode.induct)
  case 1
  then show ?case by simp
next
  case (2 b0 bs)
  show ?case
  proof (cases "unat b0 < 0x80")
    case True
    then have "bytes_decode bs = Inl e" using "2.prems" by (auto dest: dcons_kind)
    then show ?thesis using "2.IH"(1) [OF refl True] by simp
  next
    case n1: False
    show ?thesis
    proof (cases "0xC2 \<le> unat b0 \<and> unat b0 < 0xE0")
      case True
      show ?thesis
      proof (cases bs)
        case Nil
        then show ?thesis using "2.prems" n1 True by simp
      next
        case (Cons b1 r)
        show ?thesis
        proof (cases "is_cont b1")
          case c: True
          have "bytes_decode r = Inl e"
            using "2.prems" n1 True Cons c by (auto dest: dcons_kind)
          then show ?thesis using "2.IH"(2) [OF refl n1 True Cons c] by simp
        next
          case False
          then show ?thesis using "2.prems" n1 True Cons by simp
        qed
      qed
    next
      case n2: False
      show ?thesis
        using "2.prems" "2.IH"(3,4) n1 n2
        by (auto simp: Let_def split: if_splits list.splits dest!: dcons_kind)
    qed
  qed
qed


lemma bytes_decode_kind: "bytes_decode b = Inl e \<Longrightarrow> kind e = UnicodeDecodeError"
  by (auto dest: bytes_decode_error simp: decode_error_def)

lemma store_no_permission:
  "authenticated c \<Longrightarrow> \<not> raises PermissionError (fst (store c n v))"
  by (auto simp: store_def sim_store_def raises_def split: sum.splits dest: str_encode_kind)

lemma retrieve_no_permission:
  "authenticated c \<Longrightarrow> \<not> raises PermissionError (fst (retrieve c n))"
  by (auto simp: retrieve_def sim_retrieve_def raises_def split: sum.splits option.splits
           dest: bytes_decode_kind)

lemma delete_no_permission:
  "authenticated c \<Longrightarrow> \<not> raises PermissionError (fst (delete c n))"
  by (auto simp: delete_def raises_def split: prod.splits)

lemma unauthenticated_do_call:
  "\<not> authenticated c \<Longrightarrow> authenticated (do_call c x) \<Longrightarrow>
   \<exists>p. x = Authenticate p \<and> fst (authenticate c p)"
  by (cases x)
     (auto simp: connect_def claw_setup_def authenticate_def store_def retrieve_def delete_def
           split: prod.splits sum.splits if_splits)

text \<open>
  Claim C9. While the wrapper is not authenticated, and always after \<open>disconnect\<close>,
  \<open>store\<close>, \<open>retrieve\<close> and \<open>delete\<close> raise \<open>PermissionError\<close> and leave the whole
  state, so the slots, unchanged. After a successful \<open>authenticate\<close>, whatever calls
  other than \<open>disconnect\<close> follow, the wrapper stays authenticated and none of the
  three raises \<open>PermissionError\<close>.
\<close>

theorem calls_need_authentication:
  "(\<not> authenticated c \<longrightarrow>
      store c n v = (Inl not_authenticated, c) \<and>
      retrieve c n = (Inl not_authenticated, c) \<and>
      delete c n = (Inl not_authenticated, c)) \<and>
   \<not> authenticated (disconnect c) \<and>
   slots (device (disconnect c)) = slots (device c) \<and>
   kind not_authenticated = PermissionError \<and>
   (fst (authenticate c p) \<longrightarrow>
      authenticated (claw_calls (snd (authenticate c p)) xs) \<and>
      \<not> raises PermissionError (fst (store (claw_calls (snd (authenticate c p)) xs) n v)) \<and>
      \<not> raises PermissionError (fst (retrieve (claw_calls (snd (authenticate c p)) xs) n)) \<and>
      \<not> raises PermissionError (fst (delete (claw_calls (snd (authenticate c p)) xs) n)))"
proof -
  have a: "store c n v = (Inl not_authenticated, c) \<and>
           retrieve c n = (Inl not_authenticated, c) \<and>
           delete c n = (Inl not_authenticated, c)" if "\<not> authenticated c"
    using that by (simp add: store_def retrieve_def delete_def)
  have b: "\<not> authenticated (disconnect c)" "slots (device (disconnect c)) = slots (device c)"
    by (simp_all add: disconnect_def sim_disconnect_def)
  have d: "authenticated (claw_calls (snd (authenticate c p)) xs)" if "fst (authenticate c p)"
    using that by (intro authenticated_claw_calls authenticate_success)
  show ?thesis
    using a b d kind_not_authenticated store_no_permission retrieve_no_permission
          delete_no_permission
    by blast
qed

theorem calls_need_authentication_witness:
  "\<not> authenticated locked_claw \<and>
   store locked_claw (py ''k'') (py ''v'') = (Inl not_authenticated, locked_claw) \<and>
   retrieve locked_claw (py ''api_key'') = (Inl not_authenticated, locked_claw) \<and>
   delete locked_claw (py ''api_key'') = (Inl not_authenticated, locked_claw) \<and>
   fst (authenticate locked_claw (py ''1234'')) \<and>
   \<not> raises PermissionError
       (fst (retrieve (claw_calls (snd (authenticate locked_claw (py ''1234'')))
                        [Store (py ''k'') (py ''v''), Authenticate (py ''0000'')])
              (py ''k'')))"
proof -
  have u: "\<not> authenticated locked_claw" by (simp add: locked_claw_def)
  have s: "fst (authenticate locked_claw (py ''1234''))"
    by (simp add: authenticate_def verify_pin_def locked_claw_def example_device_def)
  show ?thesis
    using calls_need_authentication
            [of locked_claw "py ''k''" "py ''v''" "py ''1234''"
                "[Store (py ''k'') (py ''v''), Authenticate (py ''0000'')]"]
          calls_need_authentication
            [of locked_claw "py ''api_key''" "py ''v''" "py ''1234''" "[]"]
          u s
    by simp
qed

section \<open>The failed-attempt counter and the wipe\<close>


lemma longest_ge: "k \<le> longest_failure_run q k ps"
proof (induction ps arbitrary: k)
  case Nil
  then show ?case by simp
next
  case (Cons p ps)
  show ?case using Cons.IH [of "Suc k"] by (simp add: max.coboundedI1)
qed

lemma longest_mono: "k \<le> k' \<Longrightarrow> longest_failure_run q k ps \<le> longest_failure_run q k' ps"
proof (induction ps arbitrary: k k')
  case Nil
  then show ?case by simp
next
  case (Cons p ps)
  show ?case using Cons.IH [of "Suc k" "Suc k'"] Cons.prems by (auto simp: max.coboundedI1)
qed

lemma longest_take: "longest_failure_run q k (take n ps) \<le> longest_failure_run q k ps"
proof (induction ps arbitrary: k n)
  case Nil
  then show ?case by simp
next
  case (Cons p ps)
  show ?case
  proof (cases n)
    case 0
    then show ?thesis using longest_ge [of k q "p # ps"] by simp
  next
    case (Suc m)
    show ?thesis
      using Cons.IH [of 0 m] Cons.IH [of "Suc k" m] Suc
      by (auto simp: max.coboundedI2)
  qed
qed

lemma no_wipe:
  "failed_attempts d = int k \<Longrightarrow> int (longest_failure_run (pin d) k ps) < max_attempts d \<Longrightarrow>
   slots (verify_pins d ps) = slots d \<and> failed_attempts (verify_pins d ps) < max_attempts d"
proof (induction ps arbitrary: d k)
  case Nil
  then show ?case by simp
next
  case (Cons p ps)
  show ?case
  proof (cases "Some p = pin d")
    case True
    then have v: "verify_pin d p = (True, d\<lparr>failed_attempts := 0\<rparr>)"
      by (simp add: verify_pin_def)
    have "int (longest_failure_run (pin d) 0 ps) < max_attempts d"
      using Cons.prems(2) True by simp
    then show ?thesis using Cons.IH [of "d\<lparr>failed_attempts := 0\<rparr>" 0] v by simp
  next
    case False
    have l: "int (longest_failure_run (pin d) (Suc k) ps) < max_attempts d"
      using Cons.prems(2) False by simp
    then have "int (Suc k) < max_attempts d"
      using longest_ge [of "Suc k" "pin d" ps] by linarith
    then have v: "verify_pin d p = (False, d\<lparr>failed_attempts := int (Suc k)\<rparr>)"
      using False Cons.prems(1) by (simp add: verify_pin_def Let_def)
    show ?thesis using Cons.IH [of "d\<lparr>failed_attempts := int (Suc k)\<rparr>" "Suc k"] v l by simp
  qed
qed

lemma verify_pins_empty: "slots d = [] \<Longrightarrow> slots (verify_pins d ps) = []"
  by (induction ps arbitrary: d) (simp_all add: verify_pin_def Let_def)

lemma wipe:
  "failed_attempts d = int k \<Longrightarrow> int k < max_attempts d \<Longrightarrow>
   max_attempts d \<le> int (longest_failure_run (pin d) k ps) \<Longrightarrow>
   slots (verify_pins d ps) = []"
proof (induction ps arbitrary: d k)
  case Nil
  then show ?case by simp
next
  case (Cons p ps)
  show ?case
  proof (cases "Some p = pin d")
    case True
    then have v: "verify_pin d p = (True, d\<lparr>failed_attempts := 0\<rparr>)"
      by (simp add: verify_pin_def)
    have "max_attempts d \<le> int (longest_failure_run (pin d) 0 ps)"
      using Cons.prems True by simp
    then show ?thesis using Cons.IH [of "d\<lparr>failed_attempts := 0\<rparr>" 0] v Cons.prems by simp
  next
    case False
    have l: "max_attempts d \<le> int (longest_failure_run (pin d) (Suc k) ps)"
      using Cons.prems False by simp
    show ?thesis
    proof (cases "int (Suc k) < max_attempts d")
      case True
      then have v: "verify_pin d p = (False, d\<lparr>failed_attempts := int (Suc k)\<rparr>)"
        using False Cons.prems(1) by (simp add: verify_pin_def Let_def)
      show ?thesis using Cons.IH [of "d\<lparr>failed_attempts := int (Suc k)\<rparr>" "Suc k"] v l True by simp
    next
      case F: False
      then have v: "slots (snd (verify_pin d p)) = []"
        using False Cons.prems(1) by (simp add: verify_pin_def Let_def)
      then show ?thesis by (simp add: verify_pins_empty)
    qed
  qed
qed

text \<open>
  Claim C10, as amended. A successful \<open>verify_pin\<close> resets the failed-attempt counter
  to 0, so only consecutive failures count: from a zero counter, a sequence of calls in
  which every run of consecutive failures is shorter than \<open>max_attempts\<close> leaves the slots
  untouched and the counter below \<open>max_attempts\<close> after every one of its calls, however
  many failures it has in total; a run of \<open>max_attempts\<close> or more consecutive failures
  leaves the slots empty.
\<close>

theorem only_consecutive_failures_count:
  "(fst (verify_pin d p) \<longrightarrow> failed_attempts (snd (verify_pin d p)) = 0) \<and>
   (failed_attempts d = 0 \<and> int (longest_failure_run (pin d) 0 ps) < max_attempts d \<longrightarrow>
      (\<forall>n. slots (verify_pins d (take n ps)) = slots d \<and>
           failed_attempts (verify_pins d (take n ps)) < max_attempts d)) \<and>
   (failed_attempts d = 0 \<and> 0 < max_attempts d \<and>
    max_attempts d \<le> int (longest_failure_run (pin d) 0 ps) \<longrightarrow>
      slots (verify_pins d ps) = [])"
proof -
  have a: "fst (verify_pin d p) \<longrightarrow> failed_attempts (snd (verify_pin d p)) = 0"
    by (simp add: verify_pin_def Let_def)
  have b: "slots (verify_pins d (take n ps)) = slots d \<and>
           failed_attempts (verify_pins d (take n ps)) < max_attempts d"
    if "failed_attempts d = 0" "int (longest_failure_run (pin d) 0 ps) < max_attempts d" for n
  proof -
    have "int (longest_failure_run (pin d) 0 (take n ps)) < max_attempts d"
      using that(2) longest_take [of "pin d" 0 n ps] by linarith
    then show ?thesis using no_wipe [of d 0 "take n ps"] that(1) by simp
  qed
  have c: "slots (verify_pins d ps) = []"
    if "failed_attempts d = 0" "0 < max_attempts d"
       "max_attempts d \<le> int (longest_failure_run (pin d) 0 ps)"
    using wipe [of d 0 ps] that by simp
  show ?thesis using a b c by blast
qed

theorem only_consecutive_failures_count_witness:
  "fst (verify_pin example_device (py ''1234'')) \<and>
   failed_attempts example_device = 0 \<and>
   int (longest_failure_run (pin example_device) 0
          [py ''0'', py ''0'', py ''1234'', py ''0'', py ''0'', py ''1234'', py ''0'']) < 3 \<and>
   slots (verify_pins example_device
          [py ''0'', py ''0'', py ''1234'', py ''0'', py ''0'', py ''1234'', py ''0''])
     = slots example_device \<and>
   0 < max_attempts example_device \<and>
   max_attempts example_device
     \<le> int (longest_failure_run (pin example_device) 0 [py ''0'', py ''0'', py ''0'']) \<and>
   slots (verify_pins example_device [py ''0'', py ''0'', py ''0'']) = []"
proof -
  have s: "fst (verify_pin example_device (py ''1234''))"
    by (simp add: verify_pin_def example_device_def)
  have f: "failed_attempts example_device = 0" "0 < max_attempts example_device"
    "max_attempts example_device = 3"
    by (simp_all add: example_device_def)
  have p: "pin example_device = Some (py ''1234'')" by (simp add: example_device_def)
  have l: "int (longest_failure_run (pin example_device) 0
          [py ''0'', py ''0'', py ''1234'', py ''0'', py ''0'', py ''1234'', py ''0'']) < 3"
    unfolding p by (simp add: py_def)
  have m: "max_attempts example_device
     \<le> int (longest_failure_run (pin example_device) 0 [py ''0'', py ''0'', py ''0''])"
    unfolding p f by (simp add: py_def)
  have t: "take 7 [py ''0'', py ''0'', py ''1234'', py ''0'', py ''0'', py ''1234'', py ''0'']
           = [py ''0'', py ''0'', py ''1234'', py ''0'', py ''0'', py ''1234'', py ''0'']"
    by simp
  show ?thesis
    using only_consecutive_failures_count
            [of example_device "py ''1234''"
                "[py ''0'', py ''0'', py ''1234'', py ''0'', py ''0'', py ''1234'', py ''0'']"]
          only_consecutive_failures_count
            [of example_device "py ''1234''" "[py ''0'', py ''0'', py ''0'']"]
          s f l m t
    by (metis)
qed

text \<open>
  Claim C10 as stated fails: the sequence wrong, wrong, wrong, right, wrong has a success
  between failures, and the slots are wiped (by its third call).
\<close>

theorem success_between_failures_still_wipes:
  "failed_attempts example_device = 0 \<and> slots example_device \<noteq> [] \<and>
   \<not> fst (verify_pin example_device (py ''0000'')) \<and>
   fst (verify_pin (verify_pins example_device [py ''0000'', py ''0000'', py ''0000''])
          (py ''1234'')) \<and>
   \<not> fst (verify_pin
            (verify_pins example_device [py ''0000'', py ''0000'', py ''0000'', py ''1234''])
            (py ''0000'')) \<and>
   slots (verify_pins example_device
            [py ''0000'', py ''0000'', py ''0000'', py ''1234'', py ''0000'']) = []"
  by (simp add: verify_pin_def example_device_def py_def Let_def)



text \<open>
  Claim C1, as amended. The failing \<open>authenticate\<close> that brings the counter to
  \<open>max_attempts\<close> erases all slots and returns \<open>False\<close>, the value every failed
  \<open>authenticate\<close> returns; it leaves the PIN configured, so the next \<open>authenticate\<close>
  with the correct PIN succeeds, authenticates the wrapper and resets the counter,
  without \<open>setup\<close> being run again.
\<close>

theorem wipe_keeps_pin_configured:
  assumes "pin (device c) = Some q" and "p \<noteq> q"
    and "max_attempts (device c) \<le> failed_attempts (device c) + 1"
  shows "authenticate c p
           = (False, c\<lparr>device := (device c)\<lparr>failed_attempts := failed_attempts (device c) + 1,
                                              slots := []\<rparr>\<rparr>) \<and>
         pin (device (snd (authenticate c p))) = Some q \<and>
         pin_set (device (snd (authenticate c p))) = pin_set (device c) \<and>
         fst (authenticate (snd (authenticate c p)) q) \<and>
         authenticated (snd (authenticate (snd (authenticate c p)) q)) \<and>
         failed_attempts (device (snd (authenticate (snd (authenticate c p)) q))) = 0 \<and>
         (pin (device c2) \<noteq> Some p2 \<longrightarrow> fst (authenticate c2 p2) = fst (authenticate c p))"
proof -
  have a: "authenticate c p
           = (False, c\<lparr>device := (device c)\<lparr>failed_attempts := failed_attempts (device c) + 1,
                                              slots := []\<rparr>\<rparr>)"
    using assms by (simp add: authenticate_def verify_pin_def Let_def)
  have b: "pin (device c2) \<noteq> Some p2 \<longrightarrow> fst (authenticate c2 p2) = False"
    by (auto simp: authenticate_def verify_pin_def Let_def)
  show ?thesis
    unfolding a using assms(1) b by (simp add: authenticate_def verify_pin_def)
qed

theorem wipe_keeps_pin_configured_witness:
  "pin (device (authenticates locked_claw [py ''0000'', py ''0000''])) = Some (py ''1234'') \<and>
   py ''0000'' \<noteq> py ''1234'' \<and>
   max_attempts (device (authenticates locked_claw [py ''0000'', py ''0000'']))
     \<le> failed_attempts (device (authenticates locked_claw [py ''0000'', py ''0000''])) + 1 \<and>
   pin (device (snd (authenticate (authenticates locked_claw [py ''0000'', py ''0000''])
                       (py ''0000''))))
     = Some (py ''1234'') \<and>
   fst (authenticate
          (snd (authenticate (authenticates locked_claw [py ''0000'', py ''0000'']) (py ''0000'')))
          (py ''1234''))"
proof -
  have h: "pin (device (authenticates locked_claw [py ''0000'', py ''0000''])) = Some (py ''1234'')"
    "py ''0000'' \<noteq> py ''1234''"
    "max_attempts (device (authenticates locked_claw [py ''0000'', py ''0000'']))
     \<le> failed_attempts (device (authenticates locked_claw [py ''0000'', py ''0000''])) + 1"
    by (simp_all add: authenticate_def verify_pin_def locked_claw_def example_device_def
                      py_def Let_def)
  show ?thesis
    using wipe_keeps_pin_configured [OF h, of locked_claw "py ''0000''"] h by blast
qed

text \<open>
  Claim C1 as stated fails: after three failed calls the slots are wiped, but the PIN
  \<open>1234\<close> is still configured, the wiping call returned \<open>False\<close> as the first failure
  did, and a fourth call with \<open>1234\<close> succeeds.
\<close>

theorem correct_pin_accepted_after_wipe:
  "max_attempts (device (authenticates locked_claw [py ''0000'', py ''0000'', py ''0000'']))
     \<le> failed_attempts (device (authenticates locked_claw [py ''0000'', py ''0000'', py ''0000''])) \<and>
   slots (device (authenticates locked_claw [py ''0000'', py ''0000'', py ''0000''])) = [] \<and>
   pin_set (device (authenticates locked_claw [py ''0000'', py ''0000'', py ''0000''])) \<and>
   pin (device (authenticates locked_claw [py ''0000'', py ''0000'', py ''0000'']))
     = Some (py ''1234'') \<and>
   authenticate (authenticates locked_claw [py ''0000'', py ''0000'']) (py ''0000'')
     = (False, authenticates locked_claw [py ''0000'', py ''0000'', py ''0000'']) \<and>
   fst (authenticate locked_claw (py ''0000'')) = False \<and>
   fst (authenticate (authenticates locked_claw [py ''0000'', py ''0000'', py ''0000''])
          (py ''1234'')) = True"
  by (simp add: authenticate_def verify_pin_def locked_claw_def example_device_def py_def Let_def)

section \<open>The slot dictionary keeps distinct keys\<close>

lemma sim_store_distinct:
  "distinct (map fst (slots d)) \<Longrightarrow> distinct (map fst (slots (snd (sim_store d n b))))"
  by (simp add: sim_store_def dict_set_distinct)

lemma sim_delete_distinct:
  "distinct (map fst (slots d)) \<Longrightarrow> distinct (map fst (slots (snd (sim_delete d n))))"
  by (simp add: sim_delete_def dict_del_distinct)

lemma verify_pin_distinct:
  "distinct (map fst (slots d)) \<Longrightarrow> distinct (map fst (slots (snd (verify_pin d p))))"
  by (simp add: verify_pin_def Let_def)

lemma do_call_distinct:
  "distinct (map fst (slots (device c))) \<Longrightarrow> distinct (map fst (slots (device (do_call c x))))"
  by (cases x)
     (auto simp: connect_def sim_connect_def claw_setup_def setup_pin_def authenticate_def
                 verify_pin_def store_def sim_store_def retrieve_def sim_retrieve_def delete_def
                 sim_delete_def Let_def dict_set_distinct dict_del_distinct
           split: prod.splits sum.splits if_splits option.splits)

section \<open>Failures of the LangChain provider\<close>


lemma kind_not_found_in_vault: "kind (not_found_in_vault str_of name e) = KeyError"
  by (simp add: not_found_in_vault_def)

lemma provider_get_client_error:
  "fst (cl_retrieve cl (provider_client p) now (provider_session p) name) = Inl e0 \<Longrightarrow>
   fst (provider_get cl str_of p now name) = Inl (not_found_in_vault str_of name e0)"
  by (auto simp: provider_get_def split: prod.splits)

lemma provider_get_decode_error:
  "fst (cl_retrieve cl (provider_client p) now (provider_session p) name) = Inr v \<Longrightarrow>
   bytes_decode v = Inl e1 \<Longrightarrow>
   fst (provider_get cl str_of p now name) = Inl (not_found_in_vault str_of name e1)"
  by (auto simp: provider_get_def split: prod.splits)

lemma provider_get_value:
  "fst (cl_retrieve cl (provider_client p) now (provider_session p) name) = Inr v \<Longrightarrow>
   bytes_decode v = Inr s \<Longrightarrow>
   fst (provider_get cl str_of p now name) = Inr s"
  by (auto simp: provider_get_def split: prod.splits)

lemma provider_get_kind:
  "fst (provider_get cl str_of p now name) = Inl e \<Longrightarrow> kind e = KeyError"
  by (auto simp: provider_get_def kind_not_found_in_vault split: prod.splits sum.splits)

text \<open>
  Claim C8, as amended. Whatever the client does and whatever \<open>str\<close> gives, every failure
  of \<open>AVPCredentialProvider.get\<close> is a \<open>KeyError\<close>. An exception \<open>e0\<close> of any class raised by
  the client's \<open>retrieve\<close>, and an exception \<open>e1\<close> raised by \<open>decode\<close>, is replaced by the
  \<open>KeyError\<close> with the message \<open>Credential '<name>' not found in vault: <str of it>\<close>,
  which carries the caught exception as its \<open>__context__\<close>; a value that decodes is
  returned.
\<close>

theorem provider_get_raises_only_KeyError:
  "(fst (provider_get cl str_of p now name) = Inl e \<longrightarrow> kind e = KeyError) \<and>
   (fst (cl_retrieve cl (provider_client p) now (provider_session p) name) = Inl e0 \<longrightarrow>
      fst (provider_get cl str_of p now name) =
        Inl (Raised KeyError
               (py ''Credential '' @ [39] @ name @ [39] @ py '' not found in vault: ''
                @ str_of e0)
               (Some e0))) \<and>
   (fst (cl_retrieve cl (provider_client p) now (provider_session p) name) = Inr v \<and>
    bytes_decode v = Inl e1 \<longrightarrow>
      fst (provider_get cl str_of p now name) =
        Inl (Raised KeyError
               (py ''Credential '' @ [39] @ name @ [39] @ py '' not found in vault: ''
                @ str_of e1)
               (Some e1))) \<and>
   (fst (cl_retrieve cl (provider_client p) now (provider_session p) name) = Inr v \<and>
    bytes_decode v = Inr s \<longrightarrow>
      fst (provider_get cl str_of p now name) = Inr s)"
  using provider_get_kind [of cl str_of p now name e]
        provider_get_client_error [of cl p now name e0 str_of]
        provider_get_decode_error [of cl p now name v e1 str_of]
        provider_get_value [of cl p now name v s str_of]
  unfolding not_found_in_vault_def by blast

lemma example_provider_connect:
  "provider_connect engine new_vault 0 (py ''langchain'') = Inr example_provider"
  by (simp add: provider_connect_def engine_def engine_authenticate_def new_vault_def
                example_provider_def Let_def)

text \<open>
  Claim C8 as stated fails: a missing secret (\<open>NotFoundError\<close> from the client) and an
  expired session (\<open>SessionExpiredError\<close>) both reach the caller of \<open>get\<close> as \<open>KeyError\<close>.
  (The engine raises its exceptions with one text argument, for which \<open>str\<close> gives that
  text.)
\<close>

theorem provider_get_conflates_failures:
  "raises NotFoundError
     (fst (engine_retrieve (provider_client example_provider) 10 0 (py ''api_key''))) \<and>
   raises SessionExpiredError
     (fst (engine_retrieve (provider_client example_provider) 3600 0 (py ''api_key''))) \<and>
   raises KeyError (fst (provider_get engine message example_provider 10 (py ''api_key''))) \<and>
   raises KeyError (fst (provider_get engine message example_provider 3600 (py ''api_key'')))"
  by (simp add: provider_get_def engine_def engine_retrieve_def check_session_def
                engine_authenticate_def new_vault_def example_provider_def raises_def
                not_found_in_vault_def Let_def)

theorem provider_get_raises_only_KeyError_witness:
  "fst (cl_retrieve engine (provider_client example_provider) 3600
          (provider_session example_provider) (py ''api_key''))
     = Inl (Exn SessionExpiredError (py ''session expired'')) \<and>
   fst (provider_get engine message example_provider 3600 (py ''api_key''))
     = Inl (Raised KeyError
              (py ''Credential '' @ [39] @ py ''api_key'' @ [39] @ py '' not found in vault: ''
               @ py ''session expired'')
              (Some (Exn SessionExpiredError (py ''session expired'')))) \<and>
   fst (cl_retrieve engine (provider_client stored_provider) 10
          (provider_session stored_provider) (py ''bad''))
     = Inr [0xFF] \<and>
   bytes_decode [0xFF] = Inl decode_error \<and>
   fst (provider_get engine message stored_provider 10 (py ''bad''))
     = Inl (Raised KeyError
              (py ''Credential '' @ [39] @ py ''bad'' @ [39] @ py '' not found in vault: ''
               @ message decode_error)
              (Some decode_error)) \<and>
   fst (cl_retrieve engine (provider_client stored_provider) 10
          (provider_session stored_provider) (py ''good''))
     = Inr [0x6F, 0x6B] \<and>
   bytes_decode [0x6F, 0x6B] = Inr (py ''ok'') \<and>
   fst (provider_get engine message stored_provider 10 (py ''good'')) = Inr (py ''ok'')"
proof -
  have r: "fst (cl_retrieve engine (provider_client example_provider) 3600
                  (provider_session example_provider) (py ''api_key''))
           = Inl (Exn SessionExpiredError (py ''session expired''))"
    by (simp add: engine_def engine_retrieve_def check_session_def engine_authenticate_def
                  new_vault_def example_provider_def Let_def)
  have b: "fst (cl_retrieve engine (provider_client stored_provider) 10
                  (provider_session stored_provider) (py ''bad''))
           = Inr [0xFF]"
    by (simp add: engine_def engine_retrieve_def check_session_def engine_authenticate_def
                  engine_store_def new_vault_def example_provider_def stored_provider_def
                  py_def Let_def)
  have g: "fst (cl_retrieve engine (provider_client stored_provider) 10
                  (provider_session stored_provider) (py ''good''))
           = Inr [0x6F, 0x6B]"
    by (simp add: engine_def engine_retrieve_def check_session_def engine_authenticate_def
                  engine_store_def new_vault_def example_provider_def stored_provider_def
                  py_def Let_def)
  have db: "bytes_decode [0xFF] = Inl decode_error"
    by simp
  have dg: "bytes_decode [0x6F, 0x6B] = Inr (py ''ok'')"
    by (simp add: dcons_def py_def)
  have m: "message (Exn SessionExpiredError (py ''session expired'')) = py ''session expired''"
    by simp
  show ?thesis
    using provider_get_raises_only_KeyError
            [where cl = engine and str_of = message and p = example_provider and now = 3600
               and name = "py ''api_key''"
               and ?e0.0 = "Exn SessionExpiredError (py ''session expired'')"]
          provider_get_raises_only_KeyError
            [where cl = engine and str_of = message and p = stored_provider and now = 10
               and name = "py ''bad''" and v = "[0xFF]" and ?e1.0 = decode_error]
          provider_get_raises_only_KeyError
            [where cl = engine and str_of = message and p = stored_provider and now = 10
               and name = "py ''good''" and v = "[0x6F, 0x6B]" and s = "py ''ok''"]
          r b g db dg
    unfolding m by blast
qed

section \<open>The audit log of the CrewAI manager\<close>

lemma get_session_log:
  "audit_log (snd (get_session cl m now ws)) =
     audit_log m @
       (if map_of (sessions m) ws = None \<and> \<not> isl (fst (cl_authenticate cl (client m) now ws))
        then [\<lparr>timestamp = now, workspace = ws, action = py ''session_created'',
               credential = None\<rparr>]
        else [])"
  by (auto simp: get_session_def log_access_def split: option.splits prod.splits sum.splits)

lemma get_session_raises:
  "fst (get_session cl m now ws) = Inl e \<Longrightarrow> audit_log (snd (get_session cl m now ws)) = audit_log m"
  by (auto simp: get_session_def log_access_def split: option.splits prod.splits sum.splits)

lemma list_credentials_log:
  "audit_log (snd (list_credentials cl m now ws)) = audit_log (snd (get_session cl m now ws))"
  by (auto simp: list_credentials_def split: prod.splits sum.splits)

lemma mgr_set_log:
  "audit_log (snd (mgr_set cl m now ws name v lbls)) =
     audit_log (snd (get_session cl m now ws)) @
       (if isl (fst (mgr_set cl m now ws name v lbls)) then []
        else [\<lparr>timestamp = now, workspace = ws, action = py ''store'',
               credential = Some name\<rparr>])"
  by (auto simp: mgr_set_def log_access_def split: prod.splits sum.splits)

lemma mgr_rotate_log:
  "audit_log (snd (mgr_rotate cl m now ws name v)) =
     audit_log (snd (get_session cl m now ws)) @
       (if isl (fst (mgr_rotate cl m now ws name v)) then []
        else [\<lparr>timestamp = now, workspace = ws, action = py ''rotate'',
               credential = Some name\<rparr>])"
  by (auto simp: mgr_rotate_def log_access_def split: prod.splits sum.splits)

lemma mgr_get_retrieved:
  "get_session cl m now ws = (Inr sid, m1) \<Longrightarrow>
   fst (cl_retrieve cl (client m1) now sid name) = Inr b \<Longrightarrow>
   fst (mgr_get cl m now ws name) = bytes_decode b \<and>
   audit_log (snd (mgr_get cl m now ws name)) =
     audit_log m1 @
       [\<lparr>timestamp = now, workspace = ws, action = py ''retrieve'', credential = Some name\<rparr>]"
  by (auto simp: mgr_get_def log_access_def split: prod.splits)

lemma mgr_get_client_error:
  "get_session cl m now ws = (Inr sid, m1) \<Longrightarrow>
   fst (cl_retrieve cl (client m1) now sid name) = Inl e \<Longrightarrow>
   fst (mgr_get cl m now ws name) = Inl e \<and>
   audit_log (snd (mgr_get cl m now ws name)) = audit_log m1"
  by (auto simp: mgr_get_def split: prod.splits)

lemma session_raises_all:
  "fst (get_session cl m now ws) = Inl e \<Longrightarrow>
   fst (mgr_get cl m now ws name) = Inl e \<and>
   fst (mgr_set cl m now ws name v lbls) = Inl e \<and>
   fst (mgr_rotate cl m now ws name v) = Inl e \<and>
   fst (list_credentials cl m now ws) = Inl e \<and>
   audit_log (snd (mgr_get cl m now ws name)) = audit_log m \<and>
   audit_log (snd (mgr_set cl m now ws name v lbls)) = audit_log m \<and>
   audit_log (snd (mgr_rotate cl m now ws name v)) = audit_log m \<and>
   audit_log (snd (list_credentials cl m now ws)) = audit_log m"
  using get_session_raises [of cl m now ws e]
  by (auto simp: mgr_get_def mgr_set_def mgr_rotate_def list_credentials_def
           split: prod.splits sum.splits)

lemma mgr_get_log:
  "audit_log (snd (mgr_get cl m now ws name)) =
     audit_log (snd (get_session cl m now ws)) @
       (case get_session cl m now ws of
          (Inl e, m1) \<Rightarrow> []
        | (Inr sid, m1) \<Rightarrow>
            if isl (fst (cl_retrieve cl (client m1) now sid name)) then []
            else [\<lparr>timestamp = now, workspace = ws, action = py ''retrieve'',
                   credential = Some name\<rparr>])"
  by (auto simp: mgr_get_def log_access_def split: prod.splits sum.splits)

lemma mgr_step_log: "audit_log (mgr_step cl m c) = audit_log m @ call_entries cl m c"
proof (cases c)
  case (Pair now x)
  show ?thesis
    unfolding Pair
    by (cases x)
       (simp_all add: mgr_get_log mgr_set_log mgr_rotate_log list_credentials_log
                      get_session_log session_entries_def)
qed

lemma mgr_run_log: "audit_log (mgr_run cl m cs) = audit_log m @ run_entries cl m cs"
  by (induction cs arbitrary: m) (simp_all add: mgr_step_log)


lemma encode_example: "str_encode (py ''sk-ant-test'')
  = Inr [0x73, 0x6B, 0x2D, 0x61, 0x6E, 0x74, 0x2D, 0x74, 0x65, 0x73, 0x74]"
  by (simp add: py_def encode_cp_def)

lemma example_manager_eq:
  "example_manager =
     \<lparr>client =
        \<lparr>vault = [((py ''researcher'', py ''anthropic_api_key''),
                   \<lparr>secret_value = [0x73, 0x6B, 0x2D, 0x61, 0x6E, 0x74, 0x2D, 0x74, 0x65, 0x73, 0x74],
                    version = 1, labels = [], created_at = 0, updated_at = 0\<rparr>)],
         live_sessions = [(0, \<lparr>session_workspace = py ''researcher'', issued_at = 0, ttl = 3600,
                               expires_at = 3600\<rparr>)],
         next_session = 1, session_ttl = 3600\<rparr>,
      sessions = [(py ''researcher'', 0)],
      audit_log = [\<lparr>timestamp = 0, workspace = py ''researcher'',
                     action = py ''session_created'', credential = None\<rparr>,
                   \<lparr>timestamp = 0, workspace = py ''researcher'', action = py ''store'',
                     credential = Some (py ''anthropic_api_key'')\<rparr>]\<rparr>"
  unfolding example_manager_def
  by (simp add: mgr_set_def get_session_def new_manager_def new_vault_def engine_def
                engine_authenticate_def engine_store_def check_session_def log_access_def
                encode_example Let_def)

text \<open>
  Claim C3, as amended. For every client: \<open>_get_session\<close> appends one \<open>session_created\<close>
  entry exactly when the workspace has no cached session and \<open>authenticate\<close> returns;
  \<open>list_credentials\<close> appends nothing more; \<open>set\<close> and \<open>rotate\<close> then append exactly one entry
  when they return normally and none when they raise; \<open>get\<close> then appends exactly one entry
  when the client's \<open>retrieve\<close> returns, before the value is decoded, so also when \<open>decode\<close>
  raises, and none when the client's \<open>retrieve\<close> raises, an exception that propagates
  unchanged; when \<open>_get_session\<close> raises, all four raise the same exception and leave the
  log as it was. Entries are appended at the end, so after any sequence of these calls
  the log is the old log followed by the entries of the calls, in call order.
\<close>

theorem audit_entries_of_each_call:
  "audit_log (snd (get_session cl m now ws)) =
     audit_log m @
       (if map_of (sessions m) ws = None \<and> \<not> isl (fst (cl_authenticate cl (client m) now ws))
        then [\<lparr>timestamp = now, workspace = ws, action = py ''session_created'',
               credential = None\<rparr>]
        else []) \<and>
   audit_log (snd (list_credentials cl m now ws)) = audit_log (snd (get_session cl m now ws)) \<and>
   audit_log (snd (mgr_set cl m now ws name v lbls)) =
     audit_log (snd (get_session cl m now ws)) @
       (if isl (fst (mgr_set cl m now ws name v lbls)) then []
        else [\<lparr>timestamp = now, workspace = ws, action = py ''store'',
               credential = Some name\<rparr>]) \<and>
   audit_log (snd (mgr_rotate cl m now ws name v)) =
     audit_log (snd (get_session cl m now ws)) @
       (if isl (fst (mgr_rotate cl m now ws name v)) then []
        else [\<lparr>timestamp = now, workspace = ws, action = py ''rotate'',
               credential = Some name\<rparr>]) \<and>
   (get_session cl m now ws = (Inr sid, m1) \<and>
    fst (cl_retrieve cl (client m1) now sid name) = Inr b \<longrightarrow>
      fst (mgr_get cl m now ws name) = bytes_decode b \<and>
      audit_log (snd (mgr_get cl m now ws name)) =
        audit_log m1 @
          [\<lparr>timestamp = now, workspace = ws, action = py ''retrieve'',
            credential = Some name\<rparr>]) \<and>
   (get_session cl m now ws = (Inr sid, m1) \<and>
    fst (cl_retrieve cl (client m1) now sid name) = Inl e \<longrightarrow>
      fst (mgr_get cl m now ws name) = Inl e \<and>
      audit_log (snd (mgr_get cl m now ws name)) = audit_log m1) \<and>
   (fst (get_session cl m now ws) = Inl e \<longrightarrow>
      fst (mgr_get cl m now ws name) = Inl e \<and>
      fst (mgr_set cl m now ws name v lbls) = Inl e \<and>
      fst (mgr_rotate cl m now ws name v) = Inl e \<and>
      fst (list_credentials cl m now ws) = Inl e \<and>
      audit_log (snd (mgr_get cl m now ws name)) = audit_log m \<and>
      audit_log (snd (mgr_set cl m now ws name v lbls)) = audit_log m \<and>
      audit_log (snd (mgr_rotate cl m now ws name v)) = audit_log m \<and>
      audit_log (snd (list_credentials cl m now ws)) = audit_log m) \<and>
   audit_log (mgr_run cl m cs) = audit_log m @ run_entries cl m cs"
  using get_session_log [of cl m now ws] list_credentials_log [of cl m now ws]
        mgr_set_log [of cl m now ws name v lbls] mgr_rotate_log [of cl m now ws name v]
        mgr_get_retrieved [of cl m now ws sid m1 name b]
        mgr_get_client_error [of cl m now ws sid m1 name e]
        session_raises_all [of cl m now ws e name v lbls]
        mgr_run_log [of cl m cs]
  by blast

lemma example_get_session:
  "get_session engine example_manager now (py ''researcher'') = (Inr 0, example_manager)"
  by (simp add: example_manager_eq get_session_def py_def)

lemma example_retrieve_missing:
  "cl_retrieve engine (client example_manager) 5 0 (py ''openai_api_key'')
   = (Inl (Exn NotFoundError (py ''secret not found'')), client example_manager)"
  by (simp add: example_manager_eq engine_def engine_retrieve_def check_session_def py_def)

lemma example_retrieve_ok:
  "cl_retrieve engine (client example_manager) 5 0 (py ''anthropic_api_key'')
   = (Inr [0x73, 0x6B, 0x2D, 0x61, 0x6E, 0x74, 0x2D, 0x74, 0x65, 0x73, 0x74],
      client example_manager)"
  by (simp add: example_manager_eq engine_def engine_retrieve_def check_session_def py_def)

lemma decode_example:
  "bytes_decode [0x73, 0x6B, 0x2D, 0x61, 0x6E, 0x74, 0x2D, 0x74, 0x65, 0x73, 0x74]
   = Inr (py ''sk-ant-test'')"
  using bytes_decode_str_encode [OF encode_example] .

lemma example_get_ok:
  "fst (mgr_get engine example_manager 5 (py ''researcher'') (py ''anthropic_api_key''))
   = Inr (py ''sk-ant-test'')"
  using mgr_get_retrieved [OF example_get_session, of 5 "py ''anthropic_api_key''"]
  by (simp add: example_retrieve_ok decode_example del: bytes_decode.simps)

lemma undecodable_get_session:
  "get_session engine undecodable_manager now (py ''researcher'') = (Inr 0, undecodable_manager)"
  by (simp add: undecodable_manager_def example_manager_eq get_session_def py_def)

lemma undecodable_retrieve:
  "fst (cl_retrieve engine (client undecodable_manager) 5 0 (py ''blob'')) = Inr [0xFF]"
  by (simp add: undecodable_manager_def example_manager_eq engine_def engine_retrieve_def
                engine_store_def check_session_def py_def)

lemma offline_get_session:
  "fst (get_session offline new_manager 5 (py ''researcher''))
   = Inl (Exn ConnectionError (py ''backend unreachable''))"
  by (simp add: get_session_def offline_def new_manager_def)

theorem audit_entries_of_each_call_witness:
  "get_session engine example_manager 5 (py ''researcher'') = (Inr 0, example_manager) \<and>
   fst (cl_retrieve engine (client example_manager) 5 0 (py ''anthropic_api_key''))
     = Inr [0x73, 0x6B, 0x2D, 0x61, 0x6E, 0x74, 0x2D, 0x74, 0x65, 0x73, 0x74] \<and>
   fst (mgr_get engine example_manager 5 (py ''researcher'') (py ''anthropic_api_key''))
     = Inr (py ''sk-ant-test'') \<and>
   audit_log (snd (mgr_get engine example_manager 5 (py ''researcher'')
                     (py ''anthropic_api_key'')))
     = audit_log example_manager @
         [\<lparr>timestamp = 5, workspace = py ''researcher'', action = py ''retrieve'',
           credential = Some (py ''anthropic_api_key'')\<rparr>] \<and>
   get_session engine undecodable_manager 5 (py ''researcher'') = (Inr 0, undecodable_manager) \<and>
   fst (cl_retrieve engine (client undecodable_manager) 5 0 (py ''blob'')) = Inr [0xFF] \<and>
   fst (mgr_get engine undecodable_manager 5 (py ''researcher'') (py ''blob''))
     = Inl decode_error \<and>
   audit_log (snd (mgr_get engine undecodable_manager 5 (py ''researcher'') (py ''blob'')))
     = audit_log undecodable_manager @
         [\<lparr>timestamp = 5, workspace = py ''researcher'', action = py ''retrieve'',
           credential = Some (py ''blob'')\<rparr>] \<and>
   fst (cl_retrieve engine (client example_manager) 5 0 (py ''openai_api_key''))
     = Inl (Exn NotFoundError (py ''secret not found'')) \<and>
   fst (mgr_get engine example_manager 5 (py ''researcher'') (py ''openai_api_key''))
     = Inl (Exn NotFoundError (py ''secret not found'')) \<and>
   audit_log (snd (mgr_get engine example_manager 5 (py ''researcher'') (py ''openai_api_key'')))
     = audit_log example_manager \<and>
   fst (get_session offline new_manager 5 (py ''researcher''))
     = Inl (Exn ConnectionError (py ''backend unreachable'')) \<and>
   fst (mgr_get offline new_manager 5 (py ''researcher'') (py ''anthropic_api_key''))
     = Inl (Exn ConnectionError (py ''backend unreachable'')) \<and>
   audit_log (snd (mgr_get offline new_manager 5 (py ''researcher'') (py ''anthropic_api_key'')))
     = audit_log new_manager"
proof -
  have a: "fst (cl_retrieve engine (client example_manager) 5 0 (py ''anthropic_api_key''))
     = Inr [0x73, 0x6B, 0x2D, 0x61, 0x6E, 0x74, 0x2D, 0x74, 0x65, 0x73, 0x74]"
    by (simp add: example_retrieve_ok)
  have b: "fst (cl_retrieve engine (client example_manager) 5 0 (py ''openai_api_key''))
     = Inl (Exn NotFoundError (py ''secret not found''))"
    by (simp add: example_retrieve_missing)
  have d: "bytes_decode [0xFF] = Inl decode_error" by simp
  show ?thesis
    using audit_entries_of_each_call
            [where cl = engine and m = example_manager and now = 5 and ws = "py ''researcher''"
               and name = "py ''anthropic_api_key''" and sid = 0 and ?m1.0 = example_manager
               and b = "[0x73, 0x6B, 0x2D, 0x61, 0x6E, 0x74, 0x2D, 0x74, 0x65, 0x73, 0x74]"]
          audit_entries_of_each_call
            [where cl = engine and m = undecodable_manager and now = 5
               and ws = "py ''researcher''" and name = "py ''blob''" and sid = 0
               and ?m1.0 = undecodable_manager and b = "[0xFF]"]
          audit_entries_of_each_call
            [where cl = engine and m = example_manager and now = 5 and ws = "py ''researcher''"
               and name = "py ''openai_api_key''" and sid = 0 and ?m1.0 = example_manager
               and e = "Exn NotFoundError (py ''secret not found'')"]
          audit_entries_of_each_call
            [where cl = offline and m = new_manager and now = 5 and ws = "py ''researcher''"
               and name = "py ''anthropic_api_key''"
               and e = "Exn ConnectionError (py ''backend unreachable'')"]
          example_get_session [of 5] undecodable_get_session [of 5] undecodable_retrieve
          offline_get_session a b
    unfolding decode_example d
    by blast
qed

text \<open>
  Claim C3 as stated fails: on a manager whose log has two entries, a
  \<open>list_credentials\<close> that succeeds and a \<open>get\<close> that fails with \<open>NotFoundError\<close> each
  leave the log as it was.
\<close>

theorem list_and_failed_get_leave_no_entry:
  "length (get_audit_log example_manager) = 2 \<and>
   fst (list_credentials engine example_manager 5 (py ''researcher''))
     = Inr [py ''anthropic_api_key''] \<and>
   get_audit_log (snd (list_credentials engine example_manager 5 (py ''researcher'')))
     = get_audit_log example_manager \<and>
   raises NotFoundError
     (fst (mgr_get engine example_manager 5 (py ''researcher'') (py ''openai_api_key''))) \<and>
   get_audit_log (snd (mgr_get engine example_manager 5 (py ''researcher'') (py ''openai_api_key'')))
     = get_audit_log example_manager"
proof -
  have l: "list_credentials engine example_manager 5 (py ''researcher'')
           = (Inr [py ''anthropic_api_key''], example_manager)"
  proof -
    have c: "cl_list_secrets engine = engine_list_secrets" by (simp add: engine_def)
    have "engine_list_secrets (client example_manager) 5 0
          = (Inr [py ''anthropic_api_key''], client example_manager)"
      by (simp add: example_manager_eq engine_list_secrets_def check_session_def py_def)
    then show ?thesis by (simp add: list_credentials_def example_get_session c)
  qed
  have g: "mgr_get engine example_manager 5 (py ''researcher'') (py ''openai_api_key'')
           = (Inl (Exn NotFoundError (py ''secret not found'')), example_manager)"
    by (simp add: mgr_get_def example_get_session example_retrieve_missing)
  show ?thesis
    unfolding l g by (simp add: raises_def get_audit_log_def example_manager_eq)
qed

section \<open>Workspace isolation through the CrewAI manager\<close>

lemma stored_only_in_absent:
  assumes "stored_only_in e w1 n" and "w1 \<noteq> w2"
  shows "map_of (vault e) (w2, n) = None"
proof (rule ccontr)
  assume "map_of (vault e) (w2, n) \<noteq> None"
  then obtain x where "((w2, n), x) \<in> set (vault e)" by (auto dest: map_of_SomeD)
  then have "w2 = w1" using assms(1) by (auto simp: stored_only_in_def list_all_iff)
  then show False using assms(2) by simp
qed

lemma sessions_bound_cached:
  assumes "sessions_bound m" and "map_of (sessions m) ws = Some sid"
  shows "\<exists>s. map_of (live_sessions (client m)) sid = Some s \<and> session_workspace s = ws"
proof -
  have "(ws, sid) \<in> set (sessions m)" using assms(2) by (rule map_of_SomeD)
  then show ?thesis
    using assms(1) by (auto simp: sessions_bound_def list_all_iff split: option.splits)
qed

lemma get_session_engine_cached:
  "map_of (sessions m) ws = Some sid \<Longrightarrow> get_session engine m now ws = (Inr sid, m)"
  by (simp add: get_session_def)

lemma get_session_engine_new:
  "map_of (sessions m) ws = None \<Longrightarrow>
   get_session engine m now ws =
     (Inr (next_session (client m)),
      log_access
        (m\<lparr>client := snd (engine_authenticate (client m) now ws),
           sessions := dict_set ws (next_session (client m)) (sessions m)\<rparr>)
        now ws (py ''session_created'') None)"
  by (simp add: get_session_def engine_def engine_authenticate_def Let_def)

lemma retrieve_absent:
  assumes "map_of (live_sessions e) sid = Some s" and "session_workspace s = ws"
    and "map_of (vault e) (ws, n) = None"
  shows "engine_retrieve e now sid n =
           (if now < expires_at s then Inl (Exn NotFoundError (py ''secret not found''))
            else Inl (Exn SessionExpiredError (py ''session expired'')), e)"
  using assms by (simp add: engine_retrieve_def check_session_def)

lemma list_absent:
  assumes "map_of (live_sessions e) sid = Some s" and "session_workspace s = ws"
    and "map_of (vault e) (ws, n) = None"
  shows "fst (engine_list_secrets e now sid) = Inr names \<Longrightarrow> n \<notin> set names"
proof
  assume r: "fst (engine_list_secrets e now sid) = Inr names" and i: "n \<in> set names"
  have "names = map (snd \<circ> fst) (filter (\<lambda>kv. fst (fst kv) = ws) (vault e))"
    using r assms(1,2)
    by (auto simp: engine_list_secrets_def check_session_def split: if_splits)
  then obtain kv where "kv \<in> set (vault e)" "fst (fst kv) = ws" "snd (fst kv) = n"
    using i by auto
  then have "((ws, n), snd kv) \<in> set (vault e)" by (metis prod.collapse)
  then have "(ws, n) \<in> fst ` set (vault e)" by force
  then show False using assms(3) by (simp add: map_of_eq_None_iff)
qed

text \<open>
  Claim C2. On the engine of the specification, for workspaces \<open>W1 \<noteq> W2\<close> and a secret
  name \<open>N\<close> stored only in \<open>W1\<close>, \<open>get(W2, N)\<close> of the manager fails with \<open>NotFoundError\<close>
  whenever the session it uses for \<open>W2\<close> is valid, never returns a value (with an expired
  session it fails too), and leaves the vault as it was; and \<open>list_credentials(W2)\<close> never
  lists \<open>N\<close>.
\<close>

theorem no_cross_workspace_retrieve:
  assumes "sessions_bound m" and "W1 \<noteq> W2" and "stored_only_in (client m) W1 N"
  shows "(session_live m now W2 \<longrightarrow>
            fst (mgr_get engine m now W2 N) = Inl (Exn NotFoundError (py ''secret not found''))) \<and>
         isl (fst (mgr_get engine m now W2 N)) \<and>
         vault (client (snd (mgr_get engine m now W2 N))) = vault (client m) \<and>
         (fst (list_credentials engine m now W2) = Inr names \<longrightarrow> N \<notin> set names)"
proof -
  have absent: "map_of (vault (client m)) (W2, N) = None"
    using assms(3,2) by (rule stored_only_in_absent)
  have c: "cl_retrieve engine = engine_retrieve" "cl_list_secrets engine = engine_list_secrets"
    by (simp_all add: engine_def)
  show ?thesis
  proof (cases "map_of (sessions m) W2")
    case None
    let ?e = "snd (engine_authenticate (client m) now W2)"
    let ?sid = "next_session (client m)"
    let ?s = "\<lparr>session_workspace = W2, issued_at = now, ttl = session_ttl (client m),
               expires_at = now + session_ttl (client m)\<rparr>"
    have l: "map_of (live_sessions ?e) ?sid = Some ?s"
      by (simp add: engine_authenticate_def Let_def dict_set_lookup)
    have w: "session_workspace ?s = W2" by simp
    have v: "map_of (vault ?e) (W2, N) = None"
      using absent by (simp add: engine_authenticate_def Let_def)
    have r: "engine_retrieve ?e now ?sid N =
               (if now < expires_at ?s then Inl (Exn NotFoundError (py ''secret not found''))
                else Inl (Exn SessionExpiredError (py ''session expired'')), ?e)"
      using l w v by (rule retrieve_absent)
    have live: "session_live m now W2 = (0 < session_ttl (client m))"
      using None by (simp add: session_live_def)
    have ve: "vault ?e = vault (client m)" by (simp add: engine_authenticate_def Let_def)
    have g: "(session_live m now W2 \<longrightarrow>
            fst (mgr_get engine m now W2 N) = Inl (Exn NotFoundError (py ''secret not found''))) \<and>
         isl (fst (mgr_get engine m now W2 N)) \<and>
         vault (client (snd (mgr_get engine m now W2 N))) = vault (client m)"
      using live ve
      by (simp add: mgr_get_def get_session_engine_new [OF None] c log_access_def r)
    have "fst (list_credentials engine m now W2) = fst (engine_list_secrets ?e now ?sid)"
      by (simp add: list_credentials_def get_session_engine_new [OF None] c log_access_def
               split: prod.splits)
    then have "fst (list_credentials engine m now W2) = Inr names \<longrightarrow> N \<notin> set names"
      using list_absent [OF l w v, of now names] by simp
    with g show ?thesis by blast
  next
    case (Some sid)
    obtain s where s: "map_of (live_sessions (client m)) sid = Some s" "session_workspace s = W2"
      using sessions_bound_cached [OF assms(1) Some] by blast
    have r: "engine_retrieve (client m) now sid N =
               (if now < expires_at s then Inl (Exn NotFoundError (py ''secret not found''))
                else Inl (Exn SessionExpiredError (py ''session expired'')), client m)"
      using s absent by (rule retrieve_absent)
    have live: "session_live m now W2 = (now < expires_at s)"
      using Some s by (simp add: session_live_def)
    have g: "(session_live m now W2 \<longrightarrow>
            fst (mgr_get engine m now W2 N) = Inl (Exn NotFoundError (py ''secret not found''))) \<and>
         isl (fst (mgr_get engine m now W2 N)) \<and>
         vault (client (snd (mgr_get engine m now W2 N))) = vault (client m)"
      using live by (simp add: mgr_get_def get_session_engine_cached [OF Some] c r)
    have "fst (list_credentials engine m now W2) = fst (engine_list_secrets (client m) now sid)"
      by (simp add: list_credentials_def get_session_engine_cached [OF Some] c
               split: prod.splits)
    then have "fst (list_credentials engine m now W2) = Inr names \<longrightarrow> N \<notin> set names"
      using list_absent [OF s absent, of now names] by simp
    with g show ?thesis by blast
  qed
qed

lemma dict_set_list_all:
  "list_all P ps \<Longrightarrow> P (k, v) \<Longrightarrow> list_all P (dict_set k v ps)"
  by (induction ps) auto

lemma sessions_bound_new: "sessions_bound new_manager"
  by (simp add: sessions_bound_def new_manager_def new_vault_def)

lemma sessions_bound_client:
  "sessions_bound m \<Longrightarrow> live_sessions c' = live_sessions (client m) \<Longrightarrow>
   next_session c' = next_session (client m) \<Longrightarrow> sessions_bound (m\<lparr>client := c'\<rparr>)"
  by (simp add: sessions_bound_def)

lemma sessions_bound_log:
  "sessions_bound m \<Longrightarrow> sessions_bound (log_access m now ws a c)"
  by (simp add: sessions_bound_def log_access_def)

lemma engine_store_sessions:
  "live_sessions (snd (engine_store e now sid n v l)) = live_sessions e \<and>
   next_session (snd (engine_store e now sid n v l)) = next_session e"
  by (simp add: engine_store_def split: sum.splits)

lemma engine_retrieve_sessions:
  "live_sessions (snd (engine_retrieve e now sid n)) = live_sessions e \<and>
   next_session (snd (engine_retrieve e now sid n)) = next_session e"
  by (simp add: engine_retrieve_def split: sum.splits option.splits)

lemma engine_rotate_sessions:
  "live_sessions (snd (engine_rotate e now sid n v)) = live_sessions e \<and>
   next_session (snd (engine_rotate e now sid n v)) = next_session e"
  by (simp add: engine_rotate_def split: sum.splits option.splits)

lemma engine_list_sessions:
  "live_sessions (snd (engine_list_secrets e now sid)) = live_sessions e \<and>
   next_session (snd (engine_list_secrets e now sid)) = next_session e"
  by (simp add: engine_list_secrets_def split: sum.splits)

lemma engine_delete_sessions:
  "live_sessions (snd (engine_delete e now sid n)) = live_sessions e \<and>
   next_session (snd (engine_delete e now sid n)) = next_session e"
  by (simp add: engine_delete_def split: sum.splits option.splits)

lemma sessions_bound_get_session:
  assumes "sessions_bound m"
  shows "sessions_bound (snd (get_session engine m now ws))"
proof (cases "map_of (sessions m) ws")
  case None
  let ?sid = "next_session (client m)"
  let ?s = "\<lparr>session_workspace = ws, issued_at = now, ttl = session_ttl (client m),
             expires_at = now + session_ttl (client m)\<rparr>"
  let ?live = "dict_set ?sid ?s (live_sessions (client m))"
  have below: "list_all (\<lambda>(sid, s). sid < ?sid) (live_sessions (client m))"
    using assms by (simp add: sessions_bound_def)
  have old: "map_of ?live sid = map_of (live_sessions (client m)) sid"
    if "map_of (live_sessions (client m)) sid \<noteq> None" for sid
  proof -
    from that obtain s where "map_of (live_sessions (client m)) sid = Some s" by blast
    then have "(sid, s) \<in> set (live_sessions (client m))" by (rule map_of_SomeD)
    then have "sid < ?sid" using below by (auto simp: list_all_iff)
    then show ?thesis by (simp add: dict_set_other)
  qed
  have a: "list_all (\<lambda>(w, sid). case map_of ?live sid of
                                   None \<Rightarrow> False
                                 | Some s \<Rightarrow> session_workspace s = w) (sessions m)"
    using assms old
    by (fastforce simp: sessions_bound_def list_all_iff split: option.splits)
  have b: "case map_of ?live ?sid of None \<Rightarrow> False | Some s \<Rightarrow> session_workspace s = ws"
    by (simp add: dict_set_lookup)
  have c: "list_all (\<lambda>(w, sid). case map_of ?live sid of
                                   None \<Rightarrow> False
                                 | Some s \<Rightarrow> session_workspace s = w)
             (dict_set ws ?sid (sessions m))"
    using a b by (intro dict_set_list_all) simp_all
  have d: "list_all (\<lambda>(sid, s). sid < Suc ?sid) ?live"
    using below by (intro dict_set_list_all) (auto simp: list_all_iff)
  show ?thesis
    using c d
    by (simp add: get_session_engine_new [OF None] sessions_bound_def log_access_def
                  engine_authenticate_def Let_def)
next
  case (Some sid)
  then show ?thesis using assms by (simp add: get_session_engine_cached)
qed

lemma sessions_bound_mgr_get:
  assumes "sessions_bound m"
  shows "sessions_bound (snd (mgr_get engine m now ws n))"
proof -
  have c: "cl_retrieve engine = engine_retrieve" by (simp add: engine_def)
  obtain r m1 where g: "get_session engine m now ws = (r, m1)" by (cases "get_session engine m now ws")
  have b: "sessions_bound m1" using sessions_bound_get_session [OF assms, of now ws] g by simp
  show ?thesis
  proof (cases r)
    case (Inl e)
    then show ?thesis using b g by (simp add: mgr_get_def)
  next
    case (Inr sid)
    obtain q c' where q: "engine_retrieve (client m1) now sid n = (q, c')"
      by (cases "engine_retrieve (client m1) now sid n")
    have "sessions_bound (m1\<lparr>client := c'\<rparr>)"
      using b engine_retrieve_sessions [of "client m1" now sid n] q
      by (intro sessions_bound_client) simp_all
    then show ?thesis
      using g Inr q by (cases q) (simp_all add: mgr_get_def c sessions_bound_log)
  qed
qed

lemma sessions_bound_mgr_set:
  assumes "sessions_bound m"
  shows "sessions_bound (snd (mgr_set engine m now ws n v l))"
proof -
  have c: "cl_store engine = engine_store" by (simp add: engine_def)
  obtain r m1 where g: "get_session engine m now ws = (r, m1)" by (cases "get_session engine m now ws")
  have b: "sessions_bound m1" using sessions_bound_get_session [OF assms, of now ws] g by simp
  show ?thesis
  proof (cases r)
    case (Inl e)
    then show ?thesis using b g by (simp add: mgr_set_def)
  next
    case (Inr sid)
    show ?thesis
    proof (cases "str_encode v")
      case (Inl e)
      then show ?thesis using b g Inr by (simp add: mgr_set_def)
    next
      case enc: (Inr bs)
      obtain q c' where q: "engine_store (client m1) now sid n bs l = (q, c')"
        by (cases "engine_store (client m1) now sid n bs l")
      have "sessions_bound (m1\<lparr>client := c'\<rparr>)"
        using b engine_store_sessions [of "client m1" now sid n bs l] q
        by (intro sessions_bound_client) simp_all
      then show ?thesis
        using g Inr enc q by (cases q) (simp_all add: mgr_set_def c sessions_bound_log)
    qed
  qed
qed

lemma sessions_bound_mgr_rotate:
  assumes "sessions_bound m"
  shows "sessions_bound (snd (mgr_rotate engine m now ws n v))"
proof -
  have c: "cl_rotate engine = engine_rotate" by (simp add: engine_def)
  obtain r m1 where g: "get_session engine m now ws = (r, m1)" by (cases "get_session engine m now ws")
  have b: "sessions_bound m1" using sessions_bound_get_session [OF assms, of now ws] g by simp
  show ?thesis
  proof (cases r)
    case (Inl e)
    then show ?thesis using b g by (simp add: mgr_rotate_def)
  next
    case (Inr sid)
    show ?thesis
    proof (cases "str_encode v")
      case (Inl e)
      then show ?thesis using b g Inr by (simp add: mgr_rotate_def)
    next
      case enc: (Inr bs)
      obtain q c' where q: "engine_rotate (client m1) now sid n bs = (q, c')"
        by (cases "engine_rotate (client m1) now sid n bs")
      have "sessions_bound (m1\<lparr>client := c'\<rparr>)"
        using b engine_rotate_sessions [of "client m1" now sid n bs] q
        by (intro sessions_bound_client) simp_all
      then show ?thesis
        using g Inr enc q by (cases q) (simp_all add: mgr_rotate_def c sessions_bound_log)
    qed
  qed
qed

lemma sessions_bound_list_credentials:
  assumes "sessions_bound m"
  shows "sessions_bound (snd (list_credentials engine m now ws))"
proof -
  have c: "cl_list_secrets engine = engine_list_secrets" by (simp add: engine_def)
  obtain r m1 where g: "get_session engine m now ws = (r, m1)" by (cases "get_session engine m now ws")
  have b: "sessions_bound m1" using sessions_bound_get_session [OF assms, of now ws] g by simp
  show ?thesis
  proof (cases r)
    case (Inl e)
    then show ?thesis using b g by (simp add: list_credentials_def)
  next
    case (Inr sid)
    obtain q c' where q: "engine_list_secrets (client m1) now sid = (q, c')"
      by (cases "engine_list_secrets (client m1) now sid")
    have "sessions_bound (m1\<lparr>client := c'\<rparr>)"
      using b engine_list_sessions [of "client m1" now sid] q
      by (intro sessions_bound_client) simp_all
    then show ?thesis
      using g Inr q by (simp add: list_credentials_def c)
  qed
qed


lemma sessions_bound_example: "sessions_bound example_manager"
  unfolding example_manager_def by (intro sessions_bound_mgr_set sessions_bound_new)

theorem no_cross_workspace_retrieve_witness:
  "sessions_bound example_manager \<and> py ''researcher'' \<noteq> py ''writer'' \<and>
   stored_only_in (client example_manager) (py ''researcher'') (py ''anthropic_api_key'') \<and>
   session_live example_manager 5 (py ''writer'') \<and>
   fst (mgr_get engine example_manager 5 (py ''writer'') (py ''anthropic_api_key''))
     = Inl (Exn NotFoundError (py ''secret not found'')) \<and>
   fst (list_credentials engine example_manager 5 (py ''writer'')) = Inr [] \<and>
   py ''anthropic_api_key'' \<notin> set [] \<and>
   fst (mgr_get engine example_manager 5 (py ''researcher'') (py ''anthropic_api_key''))
     = Inr (py ''sk-ant-test'')"
proof -
  have d: "py ''researcher'' \<noteq> py ''writer''" by (simp add: py_def)
  have s: "stored_only_in (client example_manager) (py ''researcher'') (py ''anthropic_api_key'')"
    by (simp add: stored_only_in_def example_manager_eq)
  have l: "session_live example_manager 5 (py ''writer'')"
    by (simp add: session_live_def example_manager_eq py_def)
  have n: "map_of (sessions example_manager) (py ''writer'') = None"
    by (simp add: example_manager_eq py_def)
  have c: "cl_list_secrets engine = engine_list_secrets" by (simp add: engine_def)
  have e: "fst (list_credentials engine example_manager 5 (py ''writer'')) = Inr []"
    unfolding list_credentials_def get_session_engine_new [OF n] c
    by (simp add: example_manager_eq log_access_def engine_authenticate_def
                  engine_list_secrets_def check_session_def py_def Let_def)
  show ?thesis
    using no_cross_workspace_retrieve [OF sessions_bound_example d s, of 5 "[]"]
          sessions_bound_example d s l e example_get_ok
    by simp
qed

end
